theory Spec2Isabelle
  imports Complex_Main "HOL-Library.Monad_Syntax"
begin

section \<open>Values exchanged with the outside\<close>

text \<open>
  The value \<open>response.json()\<close> hands to the client: Python's reading of a JSON document.
  An object is the list of its items in order; \<open>dict_get\<close> is \<open>dict.get\<close>. Numbers are
  the integers (Python's unbounded \<open>int\<close>); JSON numbers with a fraction or an exponent
  (Python floats) are outside this model.
\<close>

datatype json =
    JNull
  | JBool bool
  | JInt int
  | JStr string
  | JArr "json list"
  | JObj "(string \<times> json) list"

definition dict_get :: "(string \<times> json) list \<Rightarrow> string \<Rightarrow> json option" where
  "dict_get kvs k = map_of kvs k"

text \<open>Python's truth value of such a value, as \<open>or\<close> and \<open>not\<close> test it.\<close>

fun truthy :: "json \<Rightarrow> bool" where
  "truthy JNull = False"
| "truthy (JBool b) = b"
| "truthy (JInt i) = (i \<noteq> 0)"
| "truthy (JStr s) = (s \<noteq> [])"
| "truthy (JArr xs) = (xs \<noteq> [])"
| "truthy (JObj kvs) = (kvs \<noteq> [])"

text \<open>\<open>a or b\<close> on values, on optional strings and on an optional integer.\<close>

definition py_or :: "json \<Rightarrow> json \<Rightarrow> json" where
  "py_or a b = (if truthy a then a else b)"

definition or_str :: "string option \<Rightarrow> string option \<Rightarrow> string option" where
  "or_str a b = (case a of None \<Rightarrow> b | Some s \<Rightarrow> if s \<noteq> [] then Some s else b)"

definition or_int :: "int option \<Rightarrow> int \<Rightarrow> int" where
  "or_int a b = (case a of None \<Rightarrow> b | Some i \<Rightarrow> if i \<noteq> 0 then i else b)"

text \<open>\<open>str(n)\<close> for an integer, as the f-string \<open>f"HTTP {response.status_code}"\<close> renders it.\<close>

definition digit_char :: "nat \<Rightarrow> char" where
  "digit_char d = ''0123456789'' ! d"

function str_nat :: "nat \<Rightarrow> string" where
  "str_nat n = (if n < 10 then [digit_char n] else str_nat (n div 10) @ [digit_char (n mod 10)])"
  by pat_completeness auto
termination
  by (relation "measure (\<lambda>n. n)") auto

declare str_nat.simps [simp del]

definition str_int :: "int \<Rightarrow> string" where
  "str_int i = (if i < 0 then CHR ''-'' # str_nat (nat (- i)) else str_nat (nat i))"

definition startswith :: "string \<Rightarrow> string \<Rightarrow> bool" where
  "startswith s p = (take (length p) s = p)"

section \<open>types.py\<close>

record ProofGateConfig =
  api_key :: string
  base_url :: string
  chain_id :: int
  guardrail_id :: "string option"
  timeout :: real

text \<open>
  \<open>ProofGateConfig(...)\<close>: a keyword left out (\<open>None\<close> here) takes the default the
  field declares.
\<close>

definition ProofGateConfig_new ::
  "string \<Rightarrow> string option \<Rightarrow> int option \<Rightarrow> string option \<Rightarrow> real option \<Rightarrow> ProofGateConfig" where
  "ProofGateConfig_new key burl cid gid tmo =
     \<lparr> api_key = key,
       base_url = (case burl of None \<Rightarrow> ''https://www.proofgate.xyz/api'' | Some u \<Rightarrow> u),
       chain_id = (case cid of None \<Rightarrow> 8453 | Some c \<Rightarrow> c),
       guardrail_id = gid,
       timeout = (case tmo of None \<Rightarrow> 30 | Some t \<Rightarrow> t) \<rparr>"

datatype severity_lit = Info | Warning | Critical

record ValidationCheck =
  name :: string
  passed :: bool
  details :: string
  severity :: severity_lit

datatype result_lit = PASS | FAIL | PENDING

record ValidateResponse =
  validation_id :: string
  result :: result_lit
  reason :: string
  evidence_uri :: string
  safe :: bool
  checks :: "ValidationCheck list"
  resp_chain_id :: int
  authenticated :: bool
  tier :: string
  backend :: string
  on_chain_recorded :: bool

section \<open>exceptions.py\<close>

text \<open>
  \<open>ProofGateError\<close> with its four attributes. \<open>message\<close> is whatever the raising site
  passes: a string, or the value found in a response body.
\<close>

record ProofGateError =
  message :: json
  code :: string
  status_code :: "int option"
  validation_result :: "ValidateResponse option"

text \<open>
  What a call can raise: the SDK's own \<open>ProofGateError\<close>, or an exception of another
  class that the SDK does not catch: the validation library's \<open>ValidationError\<close>, the
  \<open>JSONDecodeError\<close> of \<open>response.json()\<close>, the \<open>AttributeError\<close> of \<open>.get\<close> on a value
  that is not a dict, the \<open>UnicodeEncodeError\<close> of a header value that is not ASCII, and
  any other exception of an outside library, with its text.
\<close>

datatype exn =
    PGError ProofGateError
  | ValidationError
  | JSONDecodeError
  | AttributeError
  | UnicodeEncodeError
  | OtherError string

definition raise_pg :: "json \<Rightarrow> string \<Rightarrow> int option \<Rightarrow> ValidateResponse option \<Rightarrow> exn" where
  "raise_pg m c st vr = PGError \<lparr> message = m, code = c, status_code = st, validation_result = vr \<rparr>"

definition is_ProofGateError :: "exn \<Rightarrow> bool" where
  "is_ProofGateError e = (case e of PGError _ \<Rightarrow> True | _ \<Rightarrow> False)"

section \<open>The libraries outside the repository\<close>

text \<open>
  The client builds its HTTP session with \<open>httpx\<close> and decodes bodies with \<open>pydantic\<close>.
  The session (\<open>httpx.Client\<close> or \<open>httpx.AsyncClient\<close>) is the record of the arguments it
  was built with. What the libraries decide is the parameter \<open>pylib\<close> of the functions
  below:
  \<^item> \<open>new_session\<close>: what building a session with these arguments raises, if anything;
  \<^item> \<open>lax_bool\<close>, \<open>lax_int\<close>: the model classes declare no strict mode, so for a field
    declared \<open>bool\<close> (\<open>int\<close>) a value that is not a boolean (an integer) already is
    converted by the validation library where it can (\<open>None\<close> where it rejects the value).
\<close>

record httpx_client =
  client_base_url :: string
  client_timeout :: real
  client_headers :: "(string \<times> string) list"

record pylib =
  new_session :: "httpx_client \<Rightarrow> exn option"
  lax_bool :: "json \<Rightarrow> bool option"
  lax_int :: "json \<Rightarrow> int option"

section \<open>types.py: decoding\<close>

text \<open>
  \<open>model_validate\<close> on the classes of \<open>types.py\<close>, field by field as they are declared: a
  required field (\<open>Field(...)\<close>) must be there, a field with a default may be absent, a
  field with an alias is read under the alias first and under its own name otherwise
  (\<open>populate_by_name\<close>), keys the class does not declare are ignored. A \<open>str\<close> field and a
  \<open>Literal\<close> field take a string only, a list field a list only; a \<open>bool\<close> or \<open>int\<close> field
  takes a value of its type as it is and any other value through \<open>lax_bool\<close>, \<open>lax_int\<close>.
\<close>

definition as_str :: "json option \<Rightarrow> string option" where
  "as_str v = (case v of Some (JStr s) \<Rightarrow> Some s | _ \<Rightarrow> None)"

definition as_bool :: "pylib \<Rightarrow> json option \<Rightarrow> bool option" where
  "as_bool lib v = (case v of None \<Rightarrow> None | Some (JBool b) \<Rightarrow> Some b | Some j \<Rightarrow> lax_bool lib j)"

definition as_int :: "pylib \<Rightarrow> json option \<Rightarrow> int option" where
  "as_int lib v = (case v of None \<Rightarrow> None | Some (JInt i) \<Rightarrow> Some i | Some j \<Rightarrow> lax_int lib j)"

definition as_str_default :: "string \<Rightarrow> json option \<Rightarrow> string option" where
  "as_str_default d v = (case v of None \<Rightarrow> Some d | Some (JStr s) \<Rightarrow> Some s | _ \<Rightarrow> None)"

definition as_bool_default :: "pylib \<Rightarrow> bool \<Rightarrow> json option \<Rightarrow> bool option" where
  "as_bool_default lib d v = (case v of None \<Rightarrow> Some d | Some j \<Rightarrow> as_bool lib (Some j))"

definition by_alias :: "(string \<times> json) list \<Rightarrow> string \<Rightarrow> string \<Rightarrow> json option" where
  "by_alias kvs alias fname =
     (case dict_get kvs alias of Some v \<Rightarrow> Some v | None \<Rightarrow> dict_get kvs fname)"

definition as_severity :: "json option \<Rightarrow> severity_lit option" where
  "as_severity v =
     (case v of
        Some (JStr s) \<Rightarrow>
          if s = ''info'' then Some Info
          else if s = ''warning'' then Some Warning
          else if s = ''critical'' then Some Critical
          else None
      | _ \<Rightarrow> None)"

definition as_result :: "json option \<Rightarrow> result_lit option" where
  "as_result v =
     (case v of
        Some (JStr s) \<Rightarrow>
          if s = ''PASS'' then Some PASS
          else if s = ''FAIL'' then Some FAIL
          else if s = ''PENDING'' then Some PENDING
          else None
      | _ \<Rightarrow> None)"

definition ValidationCheck_fields :: "pylib \<Rightarrow> json \<Rightarrow> ValidationCheck option" where
  "ValidationCheck_fields lib j =
     (case j of
        JObj kvs \<Rightarrow>
          do {
            n \<leftarrow> as_str (dict_get kvs ''name'');
            p \<leftarrow> as_bool lib (dict_get kvs ''passed'');
            d \<leftarrow> as_str (dict_get kvs ''details'');
            s \<leftarrow> as_severity (dict_get kvs ''severity'');
            Some \<lparr> name = n, passed = p, details = d, severity = s \<rparr>
          }
      | _ \<Rightarrow> None)"

definition as_checks :: "pylib \<Rightarrow> json option \<Rightarrow> ValidationCheck list option" where
  "as_checks lib v =
     (case v of
        None \<Rightarrow> Some []
      | Some (JArr cs) \<Rightarrow> those (map (ValidationCheck_fields lib) cs)
      | _ \<Rightarrow> None)"

definition ValidateResponse_fields :: "pylib \<Rightarrow> json \<Rightarrow> ValidateResponse option" where
  "ValidateResponse_fields lib j =
     (case j of
        JObj kvs \<Rightarrow>
          do {
            vid \<leftarrow> as_str (by_alias kvs ''validationId'' ''validation_id'');
            res \<leftarrow> as_result (dict_get kvs ''result'');
            rsn \<leftarrow> as_str (dict_get kvs ''reason'');
            uri \<leftarrow> as_str (by_alias kvs ''evidenceUri'' ''evidence_uri'');
            sf \<leftarrow> as_bool lib (dict_get kvs ''safe'');
            chk \<leftarrow> as_checks lib (dict_get kvs ''checks'');
            cid \<leftarrow> as_int lib (by_alias kvs ''chainId'' ''chain_id'');
            au \<leftarrow> as_bool_default lib False (dict_get kvs ''authenticated'');
            tr \<leftarrow> as_str_default ''free'' (dict_get kvs ''tier'');
            be \<leftarrow> as_str_default ''local'' (dict_get kvs ''backend'');
            oc \<leftarrow> as_bool_default lib False (by_alias kvs ''onChainRecorded'' ''on_chain_recorded'');
            Some \<lparr> validation_id = vid, result = res, reason = rsn, evidence_uri = uri,
                   safe = sf, checks = chk, resp_chain_id = cid, authenticated = au,
                   tier = tr, backend = be, on_chain_recorded = oc \<rparr>
          }
      | _ \<Rightarrow> None)"

definition ValidateResponse_model_validate :: "pylib \<Rightarrow> json \<Rightarrow> exn + ValidateResponse" where
  "ValidateResponse_model_validate lib j =
     (case ValidateResponse_fields lib j of None \<Rightarrow> Inl ValidationError | Some r \<Rightarrow> Inr r)"

section \<open>client.py\<close>

text \<open>
  A call of \<open>self._client.request(method, path, json=json)\<close> is the record of the
  session and the three arguments; the network and the
  server are a function \<open>net\<close> from the call to what the call does: it returns a response
  (the status code and, when the body is JSON, the value \<open>response.json()\<close> gives), or
  raises \<open>httpx.TimeoutException\<close>, or raises another \<open>httpx.RequestError\<close> with its text.
  How a call is awaited is not modelled.
\<close>

record http_call =
  call_session :: httpx_client
  call_method :: string
  call_path :: string
  call_json :: "json option"

datatype transport_result =
    Response int "json option"
  | TimeoutException string
  | RequestError string

type_synonym transport = "http_call \<Rightarrow> transport_result"

text \<open>
  What the program has done to the outside so far: the sessions it opened and closed, the
  HTTP calls it issued, and (signer service) the raw transactions it broadcast.
\<close>

record world =
  requests :: "http_call list"
  sessions_opened :: "httpx_client list"
  sessions_closed :: "httpx_client list"
  broadcasts :: "string list"

definition world0 :: world where
  "world0 = \<lparr> requests = [], sessions_opened = [], sessions_closed = [], broadcasts = [] \<rparr>"

text \<open>An instance of either client class: \<open>self.config\<close> and \<open>self._client\<close>.\<close>

record pg_instance =
  config :: ProofGateConfig
  session :: httpx_client

text \<open>The keyword arguments of the constructors; \<open>None\<close> is a keyword left out.\<close>

record init_kwargs =
  kw_base_url :: "string option"
  kw_chain_id :: "int option"
  kw_guardrail_id :: "string option"
  kw_timeout :: "real option"

definition no_kwargs :: init_kwargs where
  "no_kwargs = \<lparr> kw_base_url = None, kw_chain_id = None, kw_guardrail_id = None, kw_timeout = None \<rparr>"

definition is_success :: "int \<Rightarrow> bool" where
  "is_success st = (200 \<le> st \<and> st \<le> 299)"

definition get_or_none :: "(string \<times> json) list \<Rightarrow> string \<Rightarrow> json" where
  "get_or_none kvs k = (case dict_get kvs k of None \<Rightarrow> JNull | Some v \<Rightarrow> v)"

definition opt_str_json :: "string option \<Rightarrow> json" where
  "opt_str_json s = (case s of None \<Rightarrow> JNull | Some t \<Rightarrow> JStr t)"

subsection \<open>class ProofGate\<close>

definition ProofGate_init ::
  "pylib \<Rightarrow> string \<Rightarrow> init_kwargs \<Rightarrow> world \<Rightarrow> (exn + pg_instance) \<times> world" where
  \<open>ProofGate_init lib key kw w =
     (if key = [] then
        (Inl (raise_pg (JStr ''API key is required. Get one at https://www.proofgate.xyz/dashboard'')
                ''MISSING_API_KEY'' None None), w)
      else if \<not> startswith key ''pg_'' then
        (Inl (raise_pg (JStr ''Invalid API key format. Keys start with "pg_"'')
                ''INVALID_API_KEY'' None None), w)
      else
        let burl = (case kw_base_url kw of None \<Rightarrow> ''https://www.proofgate.xyz/api'' | Some u \<Rightarrow> u);
            cid = (case kw_chain_id kw of None \<Rightarrow> 56 | Some c \<Rightarrow> c);
            tmo = (case kw_timeout kw of None \<Rightarrow> 30 | Some t \<Rightarrow> t);
            cfg = ProofGateConfig_new key (Some burl) (Some cid) (kw_guardrail_id kw) (Some tmo);
            cl = \<lparr> client_base_url = burl, client_timeout = tmo,
                   client_headers = [(''Content-Type'', ''application/json''), (''X-API-Key'', key)] \<rparr>
        in (case new_session lib cl of
              Some e \<Rightarrow> (Inl e, w)
            | None \<Rightarrow>
                (Inr \<lparr> config = cfg, session = cl \<rparr>,
                 w\<lparr> sessions_opened := sessions_opened w @ [cl] \<rparr>)))\<close>

definition ProofGate_close :: "pg_instance \<Rightarrow> world \<Rightarrow> world" where
  "ProofGate_close self w = w\<lparr> sessions_closed := sessions_closed w @ [session self] \<rparr>"

definition ProofGate_request ::
  "transport \<Rightarrow> pg_instance \<Rightarrow> string \<Rightarrow> string \<Rightarrow> json option \<Rightarrow> world \<Rightarrow> (exn + json) \<times> world" where
  "ProofGate_request net self method path js w =
     (let call = \<lparr> call_session = session self, call_method = method, call_path = path,
                   call_json = js \<rparr>;
          w' = w\<lparr> requests := requests w @ [call] \<rparr>
      in case net call of
           TimeoutException m \<Rightarrow> (Inl (raise_pg (JStr ''Request timeout'') ''TIMEOUT'' None None), w')
         | RequestError m \<Rightarrow> (Inl (raise_pg (JStr m) ''NETWORK_ERROR'' None None), w')
         | Response st body \<Rightarrow>
             (case body of
                None \<Rightarrow> (Inl JSONDecodeError, w')
              | Some d \<Rightarrow>
                  if \<not> is_success st then
                    (case d of
                       JObj kvs \<Rightarrow>
                         (Inl (raise_pg
                                 (py_or (get_or_none kvs ''error'')
                                    (py_or (get_or_none kvs ''message'') (JStr (''HTTP '' @ str_int st))))
                                 ''API_ERROR'' (Some st) None), w')
                     | _ \<Rightarrow> (Inl AttributeError, w'))
                  else (Inr d, w')))"

definition ProofGate_validate ::
  "pylib \<Rightarrow> transport \<Rightarrow> pg_instance \<Rightarrow> string \<Rightarrow> string \<Rightarrow> string \<Rightarrow> string \<Rightarrow> string option \<Rightarrow> int option
     \<Rightarrow> world \<Rightarrow> (exn + ValidateResponse) \<times> world" where
  "ProofGate_validate lib net self from_address to_address calldata wei gid cid w =
     (case ProofGate_request net self ''POST'' ''/validate''
             (Some (JObj [(''from'', JStr from_address),
                          (''to'', JStr to_address),
                          (''data'', JStr calldata),
                          (''value'', JStr wei),
                          (''guardrailId'', opt_str_json (or_str gid (guardrail_id (config self)))),
                          (''chainId'', JInt (or_int cid (chain_id (config self))))])) w of
        (Inl e, w') \<Rightarrow> (Inl e, w')
      | (Inr response, w') \<Rightarrow> (ValidateResponse_model_validate lib response, w'))"

definition ProofGate_validate_or_throw ::
  "pylib \<Rightarrow> transport \<Rightarrow> pg_instance \<Rightarrow> string \<Rightarrow> string \<Rightarrow> string \<Rightarrow> string \<Rightarrow> string option \<Rightarrow> int option
     \<Rightarrow> world \<Rightarrow> (exn + ValidateResponse) \<times> world" where
  "ProofGate_validate_or_throw lib net self from_address to_address calldata wei gid cid w =
     (case ProofGate_validate lib net self from_address to_address calldata wei gid cid w of
        (Inl e, w') \<Rightarrow> (Inl e, w')
      | (Inr res, w') \<Rightarrow>
          if \<not> safe res then
            (Inl (raise_pg (JStr (reason res)) ''VALIDATION_FAILED'' None (Some res)), w')
          else (Inr res, w'))"

text \<open>
  The three read methods. The response classes they decode into are not needed by any
  property below, so \<open>model_validate\<close> of the class is the parameter \<open>mv\<close>.
\<close>

definition ProofGate_check_agent ::
  "(json \<Rightarrow> exn + 'a) \<Rightarrow> transport \<Rightarrow> pg_instance \<Rightarrow> string \<Rightarrow> world \<Rightarrow> (exn + 'a) \<times> world" where
  "ProofGate_check_agent mv net self wallet w =
     (case ProofGate_request net self ''GET'' (''/agents/check?wallet='' @ wallet) None w of
        (Inl e, w') \<Rightarrow> (Inl e, w')
      | (Inr response, w') \<Rightarrow> (mv response, w'))"

definition ProofGate_get_evidence ::
  "(json \<Rightarrow> exn + 'a) \<Rightarrow> transport \<Rightarrow> pg_instance \<Rightarrow> string \<Rightarrow> world \<Rightarrow> (exn + 'a) \<times> world" where
  "ProofGate_get_evidence mv net self vid w =
     (case ProofGate_request net self ''GET'' (''/evidence/'' @ vid) None w of
        (Inl e, w') \<Rightarrow> (Inl e, w')
      | (Inr response, w') \<Rightarrow> (mv response, w'))"

definition ProofGate_get_usage ::
  "(json \<Rightarrow> exn + 'a) \<Rightarrow> transport \<Rightarrow> pg_instance \<Rightarrow> string \<Rightarrow> world \<Rightarrow> (exn + 'a) \<times> world" where
  "ProofGate_get_usage mv net self wallet w =
     (case ProofGate_request net self ''GET'' (''/validate?wallet='' @ wallet) None w of
        (Inl e, w') \<Rightarrow> (Inl e, w')
      | (Inr response, w') \<Rightarrow> (mv response, w'))"

subsection \<open>class AsyncProofGate\<close>

definition AsyncProofGate_init ::
  "pylib \<Rightarrow> string \<Rightarrow> init_kwargs \<Rightarrow> world \<Rightarrow> (exn + pg_instance) \<times> world" where
  \<open>AsyncProofGate_init lib key kw w =
     (if key = [] then
        (Inl (raise_pg (JStr ''API key is required. Get one at https://www.proofgate.xyz/dashboard'')
                ''MISSING_API_KEY'' None None), w)
      else if \<not> startswith key ''pg_'' then
        (Inl (raise_pg (JStr ''Invalid API key format. Keys start with "pg_"'')
                ''INVALID_API_KEY'' None None), w)
      else
        let burl = (case kw_base_url kw of None \<Rightarrow> ''https://www.proofgate.xyz/api'' | Some u \<Rightarrow> u);
            cid = (case kw_chain_id kw of None \<Rightarrow> 56 | Some c \<Rightarrow> c);
            tmo = (case kw_timeout kw of None \<Rightarrow> 30 | Some t \<Rightarrow> t);
            cfg = ProofGateConfig_new key (Some burl) (Some cid) (kw_guardrail_id kw) (Some tmo);
            cl = \<lparr> client_base_url = burl, client_timeout = tmo,
                   client_headers = [(''Content-Type'', ''application/json''), (''X-API-Key'', key)] \<rparr>
        in (case new_session lib cl of
              Some e \<Rightarrow> (Inl e, w)
            | None \<Rightarrow>
                (Inr \<lparr> config = cfg, session = cl \<rparr>,
                 w\<lparr> sessions_opened := sessions_opened w @ [cl] \<rparr>)))\<close>

definition AsyncProofGate_close :: "pg_instance \<Rightarrow> world \<Rightarrow> world" where
  "AsyncProofGate_close self w = w\<lparr> sessions_closed := sessions_closed w @ [session self] \<rparr>"

definition AsyncProofGate_request ::
  "transport \<Rightarrow> pg_instance \<Rightarrow> string \<Rightarrow> string \<Rightarrow> json option \<Rightarrow> world \<Rightarrow> (exn + json) \<times> world" where
  "AsyncProofGate_request net self method path js w =
     (let call = \<lparr> call_session = session self, call_method = method, call_path = path,
                   call_json = js \<rparr>;
          w' = w\<lparr> requests := requests w @ [call] \<rparr>
      in case net call of
           TimeoutException m \<Rightarrow> (Inl (raise_pg (JStr ''Request timeout'') ''TIMEOUT'' None None), w')
         | RequestError m \<Rightarrow> (Inl (raise_pg (JStr m) ''NETWORK_ERROR'' None None), w')
         | Response st body \<Rightarrow>
             (case body of
                None \<Rightarrow> (Inl JSONDecodeError, w')
              | Some d \<Rightarrow>
                  if \<not> is_success st then
                    (case d of
                       JObj kvs \<Rightarrow>
                         (Inl (raise_pg
                                 (py_or (get_or_none kvs ''error'')
                                    (py_or (get_or_none kvs ''message'') (JStr (''HTTP '' @ str_int st))))
                                 ''API_ERROR'' (Some st) None), w')
                     | _ \<Rightarrow> (Inl AttributeError, w'))
                  else (Inr d, w')))"

definition AsyncProofGate_validate ::
  "pylib \<Rightarrow> transport \<Rightarrow> pg_instance \<Rightarrow> string \<Rightarrow> string \<Rightarrow> string \<Rightarrow> string \<Rightarrow> string option \<Rightarrow> int option
     \<Rightarrow> world \<Rightarrow> (exn + ValidateResponse) \<times> world" where
  "AsyncProofGate_validate lib net self from_address to_address calldata wei gid cid w =
     (case AsyncProofGate_request net self ''POST'' ''/validate''
             (Some (JObj [(''from'', JStr from_address),
                          (''to'', JStr to_address),
                          (''data'', JStr calldata),
                          (''value'', JStr wei),
                          (''guardrailId'', opt_str_json (or_str gid (guardrail_id (config self)))),
                          (''chainId'', JInt (or_int cid (chain_id (config self))))])) w of
        (Inl e, w') \<Rightarrow> (Inl e, w')
      | (Inr response, w') \<Rightarrow> (ValidateResponse_model_validate lib response, w'))"

definition AsyncProofGate_validate_or_throw ::
  "pylib \<Rightarrow> transport \<Rightarrow> pg_instance \<Rightarrow> string \<Rightarrow> string \<Rightarrow> string \<Rightarrow> string \<Rightarrow> string option \<Rightarrow> int option
     \<Rightarrow> world \<Rightarrow> (exn + ValidateResponse) \<times> world" where
  "AsyncProofGate_validate_or_throw lib net self from_address to_address calldata wei gid cid w =
     (case AsyncProofGate_validate lib net self from_address to_address calldata wei gid cid w of
        (Inl e, w') \<Rightarrow> (Inl e, w')
      | (Inr res, w') \<Rightarrow>
          if \<not> safe res then
            (Inl (raise_pg (JStr (reason res)) ''VALIDATION_FAILED'' None (Some res)), w')
          else (Inr res, w'))"

definition AsyncProofGate_check_agent ::
  "(json \<Rightarrow> exn + 'a) \<Rightarrow> transport \<Rightarrow> pg_instance \<Rightarrow> string \<Rightarrow> world \<Rightarrow> (exn + 'a) \<times> world" where
  "AsyncProofGate_check_agent mv net self wallet w =
     (case AsyncProofGate_request net self ''GET'' (''/agents/check?wallet='' @ wallet) None w of
        (Inl e, w') \<Rightarrow> (Inl e, w')
      | (Inr response, w') \<Rightarrow> (mv response, w'))"

definition AsyncProofGate_get_evidence ::
  "(json \<Rightarrow> exn + 'a) \<Rightarrow> transport \<Rightarrow> pg_instance \<Rightarrow> string \<Rightarrow> world \<Rightarrow> (exn + 'a) \<times> world" where
  "AsyncProofGate_get_evidence mv net self vid w =
     (case AsyncProofGate_request net self ''GET'' (''/evidence/'' @ vid) None w of
        (Inl e, w') \<Rightarrow> (Inl e, w')
      | (Inr response, w') \<Rightarrow> (mv response, w'))"

definition AsyncProofGate_get_usage ::
  "(json \<Rightarrow> exn + 'a) \<Rightarrow> transport \<Rightarrow> pg_instance \<Rightarrow> string \<Rightarrow> world \<Rightarrow> (exn + 'a) \<times> world" where
  "AsyncProofGate_get_usage mv net self wallet w =
     (case AsyncProofGate_request net self ''GET'' (''/validate?wallet='' @ wallet) None w of
        (Inl e, w') \<Rightarrow> (Inl e, w')
      | (Inr response, w') \<Rightarrow> (mv response, w'))"

subsection \<open>is\_transaction\_safe\<close>

text \<open>
  \<open>with ProofGate(api_key=api_key) as pg\<close>: the constructor with its defaults, the body,
  and \<open>close\<close> on the way out whether the body returned or raised.
\<close>

definition is_transaction_safe ::
  "pylib \<Rightarrow> transport \<Rightarrow> string \<Rightarrow> string \<Rightarrow> string \<Rightarrow> string \<Rightarrow> string \<Rightarrow> world \<Rightarrow> (exn + bool) \<times> world" where
  "is_transaction_safe lib net key from_address to_address calldata wei w =
     (case ProofGate_init lib key no_kwargs w of
        (Inl e, w1) \<Rightarrow> (Inl e, w1)
      | (Inr pg, w1) \<Rightarrow>
          (case ProofGate_validate lib net pg from_address to_address calldata wei None None w1 of
             (Inl e, w2) \<Rightarrow> (Inl e, ProofGate_close pg w2)
           | (Inr res, w2) \<Rightarrow> (Inr (safe res), ProofGate_close pg w2)))"

section \<open>examples/signer\_service/main.py\<close>

text \<open>
  The handler of \<open>POST /execute\<close>, from the \<open>try\<close> on. The fields read from the request
  before it (\<open>to\<close>, \<open>data\<close> with default \<open>"0x"\<close>, \<open>value\<close> with default \<open>"0"\<close>,
  \<open>guardrailId\<close>) are the record \<open>exec_request\<close>; the \<open>print\<close> calls are left out.

  The chain node, the wallet library and the web framework are outside the repository:
  each of their calls is a field of \<open>signer_env\<close> that returns a value or raises.
  \<open>jsonify\<close> receives the Python value the handler builds, in which \<open>validation.checks\<close>
  is the list of \<open>ValidationCheck\<close> objects itself. \<open>str(e)\<close> is \<open>ProofGateError.__str__\<close>
  for the SDK's error and the text of the exception for the others.
\<close>

record exec_request =
  req_to :: string
  req_data :: string
  req_value :: string
  req_guardrail :: "string option"

datatype pyval =
    PyBool bool
  | PyStr string
  | PyCheck ValidationCheck
  | PyList "pyval list"
  | PyDict "(string \<times> pyval) list"

record chain_tx =
  tx_to :: string
  tx_data :: string
  tx_value :: int
  tx_gas :: int
  tx_gasPrice :: int
  tx_nonce :: int
  tx_chainId :: int

record 'b signer_env =
  account_address :: string
  to_checksum_address :: "string \<Rightarrow> exn + string"
  to_wei_ether :: "string \<Rightarrow> exn + int"
  gas_price :: "exn + int"
  get_transaction_count :: "string \<Rightarrow> exn + int"
  sign_transaction :: "chain_tx \<Rightarrow> exn + string"
  send_raw_transaction :: "string \<Rightarrow> exn + string"
  jsonify :: "pyval \<Rightarrow> exn + 'b"
  format_message :: "json \<Rightarrow> string"
  str_foreign :: "exn \<Rightarrow> string"

definition result_str :: "result_lit \<Rightarrow> string" where
  "result_str r = (case r of PASS \<Rightarrow> ''PASS'' | FAIL \<Rightarrow> ''FAIL'' | PENDING \<Rightarrow> ''PENDING'')"

definition ProofGateError_str :: "(json \<Rightarrow> string) \<Rightarrow> ProofGateError \<Rightarrow> string" where
  "ProofGateError_str fmt e = ''['' @ code e @ ''] '' @ fmt (message e)"

definition str_exn :: "'b signer_env \<Rightarrow> exn \<Rightarrow> string" where
  "str_exn env e =
     (case e of
        PGError p \<Rightarrow> ProofGateError_str (format_message env) p
      | OtherError t \<Rightarrow> t
      | _ \<Rightarrow> str_foreign env e)"

definition signer_client :: "pylib \<Rightarrow> string \<Rightarrow> world \<Rightarrow> (exn + pg_instance) \<times> world" where
  "signer_client lib key w = ProofGate_init lib key (no_kwargs\<lparr> kw_chain_id := Some 8453 \<rparr>) w"

definition validation_dict :: "ValidateResponse \<Rightarrow> pyval" where
  "validation_dict v =
     PyDict [(''result'', PyStr (result_str (result v))),
             (''reason'', PyStr (reason v)),
             (''checks'', PyList (map PyCheck (checks v)))]"

definition blocked_body :: "ValidateResponse \<Rightarrow> pyval" where
  "blocked_body v =
     PyDict [(''success'', PyBool False),
             (''error'', PyStr (''Transaction blocked by ProofGate: '' @ reason v)),
             (''validation'', validation_dict v)]"

definition sent_body :: "string \<Rightarrow> ValidateResponse \<Rightarrow> pyval" where
  "sent_body h v =
     PyDict [(''success'', PyBool True),
             (''txHash'', PyStr h),
             (''validation'', validation_dict v)]"

definition error_body :: "string \<Rightarrow> pyval" where
  "error_body t = PyDict [(''success'', PyBool False), (''error'', PyStr t)]"

text \<open>The \<open>except Exception as e\<close> clause: the answer 500, unless \<open>jsonify\<close> raises there too.\<close>

definition handler_except :: "'b signer_env \<Rightarrow> exn \<Rightarrow> exn + ('b \<times> int)" where
  "handler_except env e =
     (case jsonify env (error_body (str_exn env e)) of
        Inl e' \<Rightarrow> Inl e'
      | Inr b \<Rightarrow> Inr (b, 500))"

definition then_sum :: "'e + 'a \<Rightarrow> ('a \<Rightarrow> 'e + 'c) \<Rightarrow> 'e + 'c" where
  "then_sum m f = (case m of Inl e \<Rightarrow> Inl e | Inr x \<Rightarrow> f x)"

text \<open>The dict \<open>tx\<close>, its entries evaluated in the order they are written.\<close>

definition build_tx :: "'b signer_env \<Rightarrow> exec_request \<Rightarrow> exn + chain_tx" where
  "build_tx env rq =
     then_sum (to_checksum_address env (req_to rq)) (\<lambda>t.
     then_sum (if req_value rq \<noteq> ''0'' then to_wei_ether env (req_value rq) else Inr 0) (\<lambda>v.
     then_sum (gas_price env) (\<lambda>gp.
     then_sum (get_transaction_count env (account_address env)) (\<lambda>n.
       Inr \<lparr> tx_to = t, tx_data = req_data rq, tx_value = v, tx_gas = 200000,
             tx_gasPrice = gp, tx_nonce = n, tx_chainId = 8453 \<rparr>))))"

text \<open>Signing and sending: the raw transaction and the hash, when neither raises.\<close>

definition sign_and_send :: "'b signer_env \<Rightarrow> exec_request \<Rightarrow> exn + (string \<times> string)" where
  "sign_and_send env rq =
     then_sum (build_tx env rq) (\<lambda>tx.
     then_sum (sign_transaction env tx) (\<lambda>raw.
     then_sum (send_raw_transaction env raw) (\<lambda>h. Inr (raw, h))))"

definition execute ::
  "pylib \<Rightarrow> 'b signer_env \<Rightarrow> transport \<Rightarrow> pg_instance \<Rightarrow> exec_request \<Rightarrow> world
     \<Rightarrow> (exn + ('b \<times> int)) \<times> world" where
  "execute lib env net pg rq w =
     (case ProofGate_validate lib net pg (account_address env) (req_to rq) (req_data rq)
             (req_value rq) (req_guardrail rq) None w of
        (Inl e, w1) \<Rightarrow> (handler_except env e, w1)
      | (Inr validation, w1) \<Rightarrow>
          if \<not> safe validation then
            (case jsonify env (blocked_body validation) of
               Inl e \<Rightarrow> (handler_except env e, w1)
             | Inr b \<Rightarrow> (Inr (b, 400), w1))
          else
            (case sign_and_send env rq of
               Inl e \<Rightarrow> (handler_except env e, w1)
             | Inr (raw, h) \<Rightarrow>
                 let w2 = w1\<lparr> broadcasts := broadcasts w1 @ [raw] \<rparr>
                 in (case jsonify env (sent_body h validation) of
                       Inl e \<Rightarrow> (handler_except env e, w2)
                     | Inr b \<Rightarrow> (Inr (b, 200), w2))))"

section \<open>Concrete inputs\<close>

text \<open>
  The libraries as they behave on the inputs used below. \<open>httpx\<close> encodes header values as
  ASCII when the session is built and raises \<open>UnicodeEncodeError\<close> on a value it cannot
  encode. For a \<open>bool\<close> field the validation library takes the integers 0 and 1 and, in any
  case of letters, the strings \<open>0 off f false n no\<close> and \<open>1 on t true y yes\<close>; for an \<open>int\<close>
  field it takes a boolean (as 0 or 1) and a string of decimal digits with an optional
  minus sign. It accepts further spellings of an integer (blanks, underscores, a plus
  sign), which \<open>std_libs\<close> rejects; nothing below evaluates \<open>std_libs\<close> on them.
\<close>

definition is_ascii :: "char \<Rightarrow> bool" where
  "is_ascii c = (of_char c < (128::nat))"

definition ascii_lower :: "char \<Rightarrow> char" where
  "ascii_lower c =
     (case map_of (zip ''ABCDEFGHIJKLMNOPQRSTUVWXYZ'' ''abcdefghijklmnopqrstuvwxyz'') c of
        None \<Rightarrow> c
      | Some l \<Rightarrow> l)"

definition digit_value :: "char \<Rightarrow> int option" where
  "digit_value c = map_of (zip ''0123456789'' [0, 1, 2, 3, 4, 5, 6, 7, 8, 9]) c"

definition int_of_digits :: "string \<Rightarrow> int option" where
  "int_of_digits s =
     (if s = [] then None
      else map_option (foldl (\<lambda>a d. 10 * a + d) 0) (those (map digit_value s)))"

definition std_new_session :: "httpx_client \<Rightarrow> exn option" where
  "std_new_session c =
     (if list_all (\<lambda>kv. list_all is_ascii (snd kv)) (client_headers c) then None
      else Some UnicodeEncodeError)"

definition std_lax_bool :: "json \<Rightarrow> bool option" where
  "std_lax_bool j =
     (case j of
        JInt i \<Rightarrow> if i = 0 then Some False else if i = 1 then Some True else None
      | JStr s \<Rightarrow>
          let t = map ascii_lower s
          in if t \<in> set [''0'', ''off'', ''f'', ''false'', ''n'', ''no''] then Some False
             else if t \<in> set [''1'', ''on'', ''t'', ''true'', ''y'', ''yes''] then Some True
             else None
      | _ \<Rightarrow> None)"

definition std_lax_int :: "json \<Rightarrow> int option" where
  "std_lax_int j =
     (case j of
        JBool b \<Rightarrow> Some (if b then 1 else 0)
      | JStr s \<Rightarrow>
          (case s of
             [] \<Rightarrow> None
           | c # r \<Rightarrow> if c = CHR ''-'' then map_option uminus (int_of_digits r) else int_of_digits s)
      | _ \<Rightarrow> None)"

definition std_libs :: pylib where
  "std_libs = \<lparr> new_session = std_new_session, lax_bool = std_lax_bool, lax_int = std_lax_int \<rparr>"

text \<open>
  A stub server that answers every call alike, the two bodies of the end-to-end example
  (a rejected and an accepted transaction), and a client built with the defaults.
\<close>

definition stub :: "transport_result \<Rightarrow> transport" where
  "stub r = (\<lambda>call. r)"

definition fail_body :: json where
  "fail_body =
     JObj [(''validationId'', JStr ''val_1''),
           (''result'', JStr ''FAIL''),
           (''reason'', JStr ''exceeds daily limit''),
           (''safe'', JBool False),
           (''checks'', JArr [JObj [(''name'', JStr ''daily_limit''), (''passed'', JBool False),
                                    (''details'', JStr ''...''), (''severity'', JStr ''critical'')]]),
           (''evidenceUri'', JStr ''...''),
           (''chainId'', JInt 8453)]"

definition fail_response :: ValidateResponse where
  "fail_response =
     \<lparr> validation_id = ''val_1'', result = FAIL, reason = ''exceeds daily limit'',
       evidence_uri = ''...'', safe = False,
       checks = [\<lparr> name = ''daily_limit'', passed = False, details = ''...'', severity = Critical \<rparr>],
       resp_chain_id = 8453, authenticated = False, tier = ''free'', backend = ''local'',
       on_chain_recorded = False \<rparr>"

definition pass_body :: json where
  "pass_body =
     JObj [(''validationId'', JStr ''val_2''),
           (''result'', JStr ''PASS''),
           (''reason'', JStr ''ok''),
           (''safe'', JBool True),
           (''evidenceUri'', JStr ''...''),
           (''chainId'', JInt 8453)]"

definition pass_response :: ValidateResponse where
  "pass_response =
     \<lparr> validation_id = ''val_2'', result = PASS, reason = ''ok'',
       evidence_uri = ''...'', safe = True, checks = [],
       resp_chain_id = 8453, authenticated = False, tier = ''free'', backend = ''local'',
       on_chain_recorded = False \<rparr>"

definition demo_client :: pg_instance where
  "demo_client =
     \<lparr> config = \<lparr> api_key = ''pg_k'', base_url = ''https://www.proofgate.xyz/api'', chain_id = 56,
                    guardrail_id = None, timeout = 30 \<rparr>,
       session = \<lparr> client_base_url = ''https://www.proofgate.xyz/api'', client_timeout = 30,
                    client_headers = [(''Content-Type'', ''application/json''), (''X-API-Key'', ''pg_k'')] \<rparr> \<rparr>"

section \<open>Notions used in the statements\<close>

text \<open>
  A decoded check against the JSON value it was decoded from: the value is an object whose
  \<open>name\<close>, \<open>details\<close> and \<open>severity\<close> are the check's and whose \<open>passed\<close> decodes to the
  check's. \<open>the_call\<close> is the call \<open>_request\<close> issues and \<open>validate_call\<close> the one
  \<open>validate\<close> issues, given the two computed entries of its body. \<open>init_session\<close> and
  \<open>init_config\<close> are the session arguments and the configuration a constructor computes
  from its own arguments.
\<close>

definition init_session :: "string \<Rightarrow> init_kwargs \<Rightarrow> httpx_client" where
  "init_session key kw =
     \<lparr> client_base_url = (case kw_base_url kw of None \<Rightarrow> ''https://www.proofgate.xyz/api'' | Some u \<Rightarrow> u),
       client_timeout = (case kw_timeout kw of None \<Rightarrow> 30 | Some t \<Rightarrow> t),
       client_headers = [(''Content-Type'', ''application/json''), (''X-API-Key'', key)] \<rparr>"

definition init_config :: "string \<Rightarrow> init_kwargs \<Rightarrow> ProofGateConfig" where
  "init_config key kw =
     \<lparr> api_key = key,
       base_url = (case kw_base_url kw of None \<Rightarrow> ''https://www.proofgate.xyz/api'' | Some u \<Rightarrow> u),
       chain_id = (case kw_chain_id kw of None \<Rightarrow> 56 | Some c \<Rightarrow> c),
       guardrail_id = kw_guardrail_id kw,
       timeout = (case kw_timeout kw of None \<Rightarrow> 30 | Some t \<Rightarrow> t) \<rparr>"

definition severity_str :: "severity_lit \<Rightarrow> string" where
  "severity_str s = (case s of Info \<Rightarrow> ''info'' | Warning \<Rightarrow> ''warning'' | Critical \<Rightarrow> ''critical'')"

definition check_matches :: "pylib \<Rightarrow> json \<Rightarrow> ValidationCheck \<Rightarrow> bool" where
  "check_matches lib j c =
     (case j of
        JObj kv \<Rightarrow>
          dict_get kv ''name'' = Some (JStr (name c)) \<and>
          as_bool lib (dict_get kv ''passed'') = Some (passed c) \<and>
          dict_get kv ''details'' = Some (JStr (details c)) \<and>
          dict_get kv ''severity'' = Some (JStr (severity_str (severity c)))
      | _ \<Rightarrow> False)"

definition checks_match :: "pylib \<Rightarrow> json option \<Rightarrow> ValidationCheck list \<Rightarrow> bool" where
  "checks_match lib v cs =
     (case v of
        None \<Rightarrow> cs = []
      | Some (JArr js) \<Rightarrow> list_all2 (check_matches lib) js cs
      | _ \<Rightarrow> False)"

definition the_call :: "pg_instance \<Rightarrow> string \<Rightarrow> string \<Rightarrow> json option \<Rightarrow> http_call" where
  "the_call self method path js =
     \<lparr> call_session = session self, call_method = method, call_path = path, call_json = js \<rparr>"

definition validate_call ::
  "pg_instance \<Rightarrow> string \<Rightarrow> string \<Rightarrow> string \<Rightarrow> string \<Rightarrow> json \<Rightarrow> json \<Rightarrow> http_call" where
  "validate_call self from_address to_address calldata wei gid cid =
     the_call self ''POST'' ''/validate''
       (Some (JObj [(''from'', JStr from_address), (''to'', JStr to_address),
                    (''data'', JStr calldata), (''value'', JStr wei),
                    (''guardrailId'', gid), (''chainId'', cid)]))"

definition deny_body :: json where
  "deny_body =
     JObj [(''validationId'', JStr ''val_3''),
           (''result'', JStr ''FAIL''),
           (''reason'', JStr ''contract not allowed''),
           (''safe'', JBool False),
           (''evidenceUri'', JStr ''...''),
           (''chainId'', JInt 8453)]"

definition deny_response :: ValidateResponse where
  "deny_response =
     \<lparr> validation_id = ''val_3'', result = FAIL, reason = ''contract not allowed'',
       evidence_uri = ''...'', safe = False, checks = [],
       resp_chain_id = 8453, authenticated = False, tier = ''free'', backend = ''local'',
       on_chain_recorded = False \<rparr>"

text \<open>A rejected transaction whose \<open>safe\<close> and \<open>chainId\<close> come as strings.\<close>

definition lax_items :: "(string \<times> json) list" where
  "lax_items =
     [(''validationId'', JStr ''val_6''),
      (''result'', JStr ''FAIL''),
      (''reason'', JStr ''contract not allowed''),
      (''safe'', JStr ''false''),
      (''evidenceUri'', JStr ''...''),
      (''chainId'', JStr ''8453'')]"

definition lax_response :: ValidateResponse where
  "lax_response =
     \<lparr> validation_id = ''val_6'', result = FAIL, reason = ''contract not allowed'',
       evidence_uri = ''...'', safe = False, checks = [],
       resp_chain_id = 8453, authenticated = False, tier = ''free'', backend = ''local'',
       on_chain_recorded = False \<rparr>"

definition guarded_client :: pg_instance where
  "guarded_client = demo_client\<lparr> config := (config demo_client)\<lparr> guardrail_id := Some ''gr_default'' \<rparr> \<rparr>"

definition signer_pg :: pg_instance where
  "signer_pg = demo_client\<lparr> config := (config demo_client)\<lparr> chain_id := 8453 \<rparr> \<rparr>"

definition demo_request :: exec_request where
  "demo_request = \<lparr> req_to = ''0x0000000000000000000000000000000000000001'', req_data = ''0xa9059cbb'', req_value = ''0'', req_guardrail = None \<rparr>"

text \<open>
  An environment for the signer service in which every outside call returns, with
  \<open>jsonify\<close> handing back the value it was given; and the same with a node that refuses
  the transaction. The two addresses used are 40 digits without letters, so the
  checksummed form \<open>to_checksum_address\<close> returns is the address itself.
\<close>

definition demo_env :: "pyval signer_env" where
  "demo_env =
     \<lparr> account_address = ''0x0000000000000000000000000000000000000002'',
       to_checksum_address = (\<lambda>a. Inr a),
       to_wei_ether = (\<lambda>s. Inr 1000000000000000000),
       gas_price = Inr 5,
       get_transaction_count = (\<lambda>a. Inr 7),
       sign_transaction = (\<lambda>tx. Inr ''0xsigned''),
       send_raw_transaction = (\<lambda>raw. Inr ''0xhash''),
       jsonify = (\<lambda>d. Inr d),
       format_message = (\<lambda>j. case j of JStr s \<Rightarrow> s | _ \<Rightarrow> []),
       str_foreign = (\<lambda>e. []) \<rparr>"

definition refusing_env :: "pyval signer_env" where
  "refusing_env = demo_env\<lparr> send_raw_transaction := (\<lambda>raw. Inl (OtherError ''insufficient funds'')) \<rparr>"

definition pass_checked_body :: json where
  "pass_checked_body =
     JObj [(''validationId'', JStr ''val_4''),
           (''result'', JStr ''PASS''),
           (''reason'', JStr ''ok''),
           (''safe'', JBool True),
           (''checks'', JArr [JObj [(''name'', JStr ''allowed_contracts''), (''passed'', JBool True),
                                    (''details'', JStr ''...''), (''severity'', JStr ''info'')]]),
           (''evidenceUri'', JStr ''...''),
           (''chainId'', JInt 8453)]"

definition pass_checked_response :: ValidateResponse where
  "pass_checked_response =
     \<lparr> validation_id = ''val_4'', result = PASS, reason = ''ok'',
       evidence_uri = ''...'', safe = True,
       checks = [\<lparr> name = ''allowed_contracts'', passed = True, details = ''...'', severity = Info \<rparr>],
       resp_chain_id = 8453, authenticated = False, tier = ''free'', backend = ''local'',
       on_chain_recorded = False \<rparr>"

text \<open>
  The service is a plain \<open>Flask(__name__)\<close>, so \<open>jsonify\<close> is the framework's default JSON
  provider (outside the repository): it serialises dicts, lists, strings and booleans,
  and raises \<open>TypeError\<close> on an object of a class it has no rule for, which an instance of
  the model class \<open>ValidationCheck\<close> is. \<open>flask_env\<close> is \<open>demo_env\<close> with such a \<open>jsonify\<close>.
\<close>

fun serialisable :: "pyval \<Rightarrow> bool" where
  "serialisable (PyBool b) = True"
| "serialisable (PyStr s) = True"
| "serialisable (PyCheck c) = False"
| "serialisable (PyList xs) = list_all serialisable xs"
| "serialisable (PyDict kvs) = list_all (\<lambda>kv. serialisable (snd kv)) kvs"

definition default_jsonify :: "pyval \<Rightarrow> exn + pyval" where
  "default_jsonify d =
     (if serialisable d then Inr d
      else Inl (OtherError ''Object of type ValidationCheck is not JSON serializable''))"

definition flask_env :: "pyval signer_env" where
  "flask_env = demo_env\<lparr> jsonify := default_jsonify \<rparr>"

section \<open>Facts about decoding\<close>

lemma as_str_Some: "as_str v = Some s \<longleftrightarrow> v = Some (JStr s)"
  by (auto simp: as_str_def split: option.splits json.splits)

lemma as_bool_JBool: "as_bool lib (Some (JBool b)) = Some b"
  by (simp add: as_bool_def)

lemma as_int_JInt: "as_int lib (Some (JInt i)) = Some i"
  by (simp add: as_int_def)

lemma as_result_Some: "as_result v = Some r \<Longrightarrow> v = Some (JStr (result_str r))"
  by (auto simp: as_result_def result_str_def split: option.splits json.splits if_splits)

lemma as_severity_Some: "as_severity v = Some r \<Longrightarrow> v = Some (JStr (severity_str r))"
  by (auto simp: as_severity_def severity_str_def split: option.splits json.splits if_splits)

lemma ValidationCheck_fields_matches:
  "ValidationCheck_fields lib j = Some c \<Longrightarrow> check_matches lib j c"
  by (cases j)
     (auto simp: ValidationCheck_fields_def check_matches_def as_str_Some
           bind_eq_Some_conv dest: as_severity_Some)

lemma those_map_all2:
  "those (map f js) = Some cs \<Longrightarrow> (\<And>j c. f j = Some c \<Longrightarrow> P j c) \<Longrightarrow> list_all2 P js cs"
proof (induction js arbitrary: cs)
  case Nil
  then show ?case by simp
next
  case (Cons j js)
  then show ?case
    by (auto split: option.splits)
qed

lemma as_checks_match: "as_checks lib v = Some cs \<Longrightarrow> checks_match lib v cs"
  by (auto simp: as_checks_def checks_match_def split: option.splits json.splits
           intro: those_map_all2 ValidationCheck_fields_matches)

lemma ValidateResponse_fields_sound:
  assumes "ValidateResponse_fields lib j = Some r"
  shows "\<exists>kvs. j = JObj kvs \<and>
           as_bool lib (dict_get kvs ''safe'') = Some (safe r) \<and>
           dict_get kvs ''result'' = Some (JStr (result_str (result r))) \<and>
           dict_get kvs ''reason'' = Some (JStr (reason r)) \<and>
           checks_match lib (dict_get kvs ''checks'') (checks r)"
proof (cases j)
  case (JObj kvs)
  from assms[unfolded JObj ValidateResponse_fields_def, simplified]
  obtain vid res rsn uri sf chk cid au tr be oc where
    f: "as_result (dict_get kvs ''result'') = Some res"
       "as_str (dict_get kvs ''reason'') = Some rsn"
       "as_bool lib (dict_get kvs ''safe'') = Some sf"
       "as_checks lib (dict_get kvs ''checks'') = Some chk"
    and r: "r = \<lparr> validation_id = vid, result = res, reason = rsn, evidence_uri = uri,
                   safe = sf, checks = chk, resp_chain_id = cid, authenticated = au,
                   tier = tr, backend = be, on_chain_recorded = oc \<rparr>"
    by (auto simp: bind_eq_Some_conv)
  show ?thesis
    using f r JObj
    by (simp add: as_str_Some as_result_Some as_checks_match)
qed (use assms in \<open>simp_all add: ValidateResponse_fields_def\<close>)

lemmas decode_defs =
  ValidateResponse_model_validate_def ValidateResponse_fields_def ValidationCheck_fields_def
  as_str_def as_bool_def as_int_def as_result_def as_checks_def as_severity_def by_alias_def
  dict_get_def as_bool_default_def as_str_default_def std_libs_def std_lax_bool_def
  std_lax_int_def int_of_digits_def digit_value_def ascii_lower_def

lemma fail_decodes: "ValidateResponse_model_validate std_libs fail_body = Inr fail_response"
  by (simp add: decode_defs fail_body_def fail_response_def)

lemma pass_decodes: "ValidateResponse_model_validate std_libs pass_body = Inr pass_response"
  by (simp add: decode_defs pass_body_def pass_response_def)

section \<open>Facts about the request path\<close>

lemma request_world:
  "snd (ProofGate_request net self m p js w) = w\<lparr> requests := requests w @ [the_call self m p js] \<rparr>"
  by (simp add: ProofGate_request_def the_call_def Let_def
           split: transport_result.splits option.splits json.splits)

lemma request_ok:
  "net (the_call self m p js) = Response st (Some d) \<Longrightarrow> is_success st \<Longrightarrow>
   ProofGate_request net self m p js w = (Inr d, w\<lparr> requests := requests w @ [the_call self m p js] \<rparr>)"
  by (simp add: ProofGate_request_def the_call_def Let_def)

lemma async_init_eq: "AsyncProofGate_init = ProofGate_init"
  by (intro ext) (simp add: AsyncProofGate_init_def ProofGate_init_def)

lemma async_close_eq: "AsyncProofGate_close = ProofGate_close"
  by (intro ext) (simp add: AsyncProofGate_close_def ProofGate_close_def)

lemma async_request_eq: "AsyncProofGate_request = ProofGate_request"
  by (intro ext) (simp add: AsyncProofGate_request_def ProofGate_request_def)

lemma async_validate_eq: "AsyncProofGate_validate = ProofGate_validate"
  by (intro ext) (simp add: AsyncProofGate_validate_def ProofGate_validate_def async_request_eq)

lemma async_validate_or_throw_eq: "AsyncProofGate_validate_or_throw = ProofGate_validate_or_throw"
  by (intro ext)
     (simp add: AsyncProofGate_validate_or_throw_def ProofGate_validate_or_throw_def async_validate_eq)

lemma async_check_agent_eq: "AsyncProofGate_check_agent = ProofGate_check_agent"
  by (intro ext) (simp add: AsyncProofGate_check_agent_def ProofGate_check_agent_def async_request_eq)

lemma async_get_evidence_eq: "AsyncProofGate_get_evidence = ProofGate_get_evidence"
  by (intro ext) (simp add: AsyncProofGate_get_evidence_def ProofGate_get_evidence_def async_request_eq)

lemma async_get_usage_eq: "AsyncProofGate_get_usage = ProofGate_get_usage"
  by (intro ext) (simp add: AsyncProofGate_get_usage_def ProofGate_get_usage_def async_request_eq)

lemma validate_unfold:
  "ProofGate_validate lib net self f t d v g c w =
     (case ProofGate_request net self ''POST'' ''/validate''
        (call_json (validate_call self f t d v (opt_str_json (or_str g (guardrail_id (config self))))
                      (JInt (or_int c (chain_id (config self)))))) w of
        (Inl e, w') \<Rightarrow> (Inl e, w')
      | (Inr response, w') \<Rightarrow> (ValidateResponse_model_validate lib response, w'))"
  by (simp add: ProofGate_validate_def validate_call_def the_call_def)

lemma validate_call_shape:
  "validate_call self f t d v g c = the_call self ''POST'' ''/validate'' (call_json (validate_call self f t d v g c))"
  by (simp add: validate_call_def the_call_def)

lemma validate_ok:
  assumes "net (validate_call self f t d v (opt_str_json (or_str g (guardrail_id (config self))))
                  (JInt (or_int c (chain_id (config self))))) = Response st (Some body)"
    and "is_success st"
  shows "ProofGate_validate lib net self f t d v g c w =
           (ValidateResponse_model_validate lib body,
            w\<lparr> requests := requests w @
                 [validate_call self f t d v (opt_str_json (or_str g (guardrail_id (config self))))
                    (JInt (or_int c (chain_id (config self))))] \<rparr>)"
proof -
  let ?call = "validate_call self f t d v (opt_str_json (or_str g (guardrail_id (config self))))
                  (JInt (or_int c (chain_id (config self))))"
  have "ProofGate_request net self ''POST'' ''/validate'' (call_json ?call) w =
          (Inr body, w\<lparr> requests := requests w @ [the_call self ''POST'' ''/validate'' (call_json ?call)] \<rparr>)"
    using assms validate_call_shape[of self f t d v] by (intro request_ok) simp_all
  then show ?thesis
    using validate_call_shape[of self f t d v] by (simp add: validate_unfold)
qed

lemma init_demo:
  "ProofGate_init std_libs ''pg_k'' no_kwargs world0 =
     (Inr demo_client, world0\<lparr> sessions_opened := [session demo_client] \<rparr>)"
  by (simp add: ProofGate_init_def no_kwargs_def world0_def demo_client_def startswith_def
        ProofGateConfig_new_def Let_def std_libs_def std_new_session_def is_ascii_def)

lemma demo_call:
  "validate_call demo_client f t d v (opt_str_json (or_str None (guardrail_id (config demo_client))))
     (JInt (or_int None (chain_id (config demo_client)))) =
   validate_call demo_client f t d v JNull (JInt 56)"
  by (simp add: demo_client_def or_str_def or_int_def opt_str_json_def)

lemma demo_validate:
  "ProofGate_validate lib (stub (Response 200 (Some body))) demo_client f t d v None None w =
     (ValidateResponse_model_validate lib body,
      w\<lparr> requests := requests w @ [validate_call demo_client f t d v JNull (JInt 56)] \<rparr>)"
  using validate_ok[of "stub (Response 200 (Some body))" demo_client f t d v None None 200 body lib w]
  by (simp add: stub_def is_success_def demo_call)

section \<open>The throwing wrapper\<close>

text \<open>
  C1. \<open>validate_or_throw\<close>, in the blocking and in the non-blocking client: when the
  underlying \<open>validate\<close> call returns a response with \<open>safe\<close> true, it returns that very
  response; when \<open>safe\<close> is false, it raises the \<open>ProofGateError\<close> with code
  \<open>VALIDATION_FAILED\<close> whose message is the response's \<open>reason\<close> and whose
  \<open>validation_result\<close> is the whole response (so the same reason and checks); and an
  exception of \<open>validate\<close> passes through. The calls issued are those of \<open>validate\<close>.
\<close>

theorem validate_or_throw_cases:
  "(ProofGate_validate lib net self f t d v g c w = (Inr r, w') \<longrightarrow>
      ProofGate_validate_or_throw lib net self f t d v g c w =
        (if safe r then (Inr r, w')
         else (Inl (PGError \<lparr> message = JStr (reason r), code = ''VALIDATION_FAILED'',
                               status_code = None, validation_result = Some r \<rparr>), w'))) \<and>
   (ProofGate_validate lib net self f t d v g c w = (Inl e, w') \<longrightarrow>
      ProofGate_validate_or_throw lib net self f t d v g c w = (Inl e, w')) \<and>
   (AsyncProofGate_validate lib net self f t d v g c w = (Inr r, w') \<longrightarrow>
      AsyncProofGate_validate_or_throw lib net self f t d v g c w =
        (if safe r then (Inr r, w')
         else (Inl (PGError \<lparr> message = JStr (reason r), code = ''VALIDATION_FAILED'',
                               status_code = None, validation_result = Some r \<rparr>), w'))) \<and>
   (AsyncProofGate_validate lib net self f t d v g c w = (Inl e, w') \<longrightarrow>
      AsyncProofGate_validate_or_throw lib net self f t d v g c w = (Inl e, w'))"
  by (simp add: ProofGate_validate_or_throw_def AsyncProofGate_validate_or_throw_def raise_pg_def)

theorem validate_or_throw_cases_witness:
  "fst (ProofGate_validate_or_throw std_libs (stub (Response 200 (Some fail_body))) demo_client
          ''0xA'' ''0xB'' ''0xa9059cbb'' ''0'' None None world0) =
     Inl (PGError \<lparr> message = JStr ''exceeds daily limit'', code = ''VALIDATION_FAILED'',
                     status_code = None, validation_result = Some fail_response \<rparr>) \<and>
   fst (AsyncProofGate_validate_or_throw std_libs (stub (Response 200 (Some fail_body))) demo_client
          ''0xA'' ''0xB'' ''0xa9059cbb'' ''0'' None None world0) =
     Inl (PGError \<lparr> message = JStr ''exceeds daily limit'', code = ''VALIDATION_FAILED'',
                     status_code = None, validation_result = Some fail_response \<rparr>) \<and>
   fst (ProofGate_validate_or_throw std_libs (stub (Response 200 (Some pass_body))) demo_client
          ''0xA'' ''0xB'' ''0xa9059cbb'' ''0'' None None world0) = Inr pass_response \<and>
   fst (AsyncProofGate_validate_or_throw std_libs (stub (Response 200 (Some pass_body))) demo_client
          ''0xA'' ''0xB'' ''0xa9059cbb'' ''0'' None None world0) = Inr pass_response"
proof -
  let ?w = "world0\<lparr> requests := requests world0 @
              [validate_call demo_client ''0xA'' ''0xB'' ''0xa9059cbb'' ''0'' JNull (JInt 56)] \<rparr>"
  have f: "ProofGate_validate std_libs (stub (Response 200 (Some fail_body))) demo_client
             ''0xA'' ''0xB'' ''0xa9059cbb'' ''0'' None None world0 = (Inr fail_response, ?w)"
    by (simp add: demo_validate fail_decodes)
  have p: "ProofGate_validate std_libs (stub (Response 200 (Some pass_body))) demo_client
             ''0xA'' ''0xB'' ''0xa9059cbb'' ''0'' None None world0 = (Inr pass_response, ?w)"
    by (simp add: demo_validate pass_decodes)
  have sf: "\<not> safe fail_response" "reason fail_response = ''exceeds daily limit''"
    by (simp_all add: fail_response_def)
  have sp: "safe pass_response"
    by (simp add: pass_response_def)
  show ?thesis
    using validate_or_throw_cases[of std_libs "stub (Response 200 (Some fail_body))" demo_client
            "''0xA''" "''0xB''" "''0xa9059cbb''" "''0''" None None world0 fail_response ?w]
          validate_or_throw_cases[of std_libs "stub (Response 200 (Some pass_body))" demo_client
            "''0xA''" "''0xB''" "''0xa9059cbb''" "''0''" None None world0 pass_response ?w]
          f p sf sp
    by (simp add: async_validate_eq)
qed

section \<open>Decoding the verdict\<close>

lemma lax_decodes: "ValidateResponse_model_validate std_libs (JObj lax_items) = Inr lax_response"
  by (simp add: decode_defs lax_items_def lax_response_def)

text \<open>
  C2 (as the code has it). When the HTTP exchange of \<open>validate\<close> ends with a 2xx status and
  a body that \<open>ValidateResponse\<close> accepts, \<open>validate\<close> returns the decoded response and
  raises nothing, whatever \<open>safe\<close> and \<open>result\<close> say. Each field is read from its own key
  of the body: \<open>result\<close> and \<open>reason\<close> of the returned object are the strings under those
  keys; \<open>safe\<close> is the boolean under its key when the body has a boolean there, and
  otherwise the boolean the validation library converts the value to; \<open>checks\<close> is the
  body's list decoded in order (empty when the body has no such key), with \<open>name\<close>,
  \<open>details\<close> and \<open>severity\<close> as they are and \<open>passed\<close> like \<open>safe\<close>.
\<close>

theorem validate_passes_body_through:
  assumes "net (validate_call self f t d v (opt_str_json (or_str g (guardrail_id (config self))))
                  (JInt (or_int c (chain_id (config self))))) = Response st (Some body)"
    and "is_success st"
    and "ValidateResponse_model_validate lib body = Inr r"
  shows "fst (ProofGate_validate lib net self f t d v g c w) = Inr r \<and>
         fst (AsyncProofGate_validate lib net self f t d v g c w) = Inr r \<and>
         (\<exists>kvs. body = JObj kvs \<and>
            as_bool lib (dict_get kvs ''safe'') = Some (safe r) \<and>
            (\<forall>b. dict_get kvs ''safe'' = Some (JBool b) \<longrightarrow> safe r = b) \<and>
            dict_get kvs ''result'' = Some (JStr (result_str (result r))) \<and>
            dict_get kvs ''reason'' = Some (JStr (reason r)) \<and>
            checks_match lib (dict_get kvs ''checks'') (checks r))"
proof -
  have v: "fst (ProofGate_validate lib net self f t d v g c w) = Inr r"
    using validate_ok[of net self f t d v g c st body lib w] assms by simp
  from assms(3) have "ValidateResponse_fields lib body = Some r"
    by (simp add: ValidateResponse_model_validate_def split: option.splits)
  from ValidateResponse_fields_sound[OF this]
  obtain kvs where k: "body = JObj kvs"
      "as_bool lib (dict_get kvs ''safe'') = Some (safe r)"
      "dict_get kvs ''result'' = Some (JStr (result_str (result r)))"
      "dict_get kvs ''reason'' = Some (JStr (reason r))"
      "checks_match lib (dict_get kvs ''checks'') (checks r)"
    by blast
  have "\<forall>b. dict_get kvs ''safe'' = Some (JBool b) \<longrightarrow> safe r = b"
    using k(2) by (auto simp: as_bool_def)
  with k v show ?thesis
    by (simp add: async_validate_eq)
qed

theorem validate_passes_body_through_witness:
  "fst (ProofGate_validate std_libs (stub (Response 200 (Some fail_body))) demo_client
          ''0xA'' ''0xB'' ''0xa9059cbb'' ''0'' None None world0) = Inr fail_response \<and>
   fst (AsyncProofGate_validate std_libs (stub (Response 200 (Some fail_body))) demo_client
          ''0xA'' ''0xB'' ''0xa9059cbb'' ''0'' None None world0) = Inr fail_response \<and>
   safe fail_response = False \<and> result fail_response = FAIL \<and>
   reason fail_response = ''exceeds daily limit'' \<and> length (checks fail_response) = 1"
proof -
  have n: "stub (Response 200 (Some fail_body))
             (validate_call demo_client ''0xA'' ''0xB'' ''0xa9059cbb'' ''0''
                (opt_str_json (or_str None (guardrail_id (config demo_client))))
                (JInt (or_int None (chain_id (config demo_client))))) = Response 200 (Some fail_body)"
    by (simp add: stub_def)
  have s: "is_success 200"
    by (simp add: is_success_def)
  show ?thesis
    using validate_passes_body_through[where net = "stub (Response 200 (Some fail_body))"
            and self = demo_client and f = "''0xA''" and t = "''0xB''" and d = "''0xa9059cbb''"
            and v = "''0''" and g = None and c = None and st = 200 and body = fail_body
            and lib = std_libs and r = fail_response and w = world0]
          n s fail_decodes
    by (simp add: fail_response_def)
qed

text \<open>
  The sentence as the specification has it fails on a body whose \<open>safe\<close> is not a JSON
  boolean: the body with \<open>"safe": "false"\<close> is accepted, and the \<open>safe\<close> of the returned
  object is the boolean \<open>False\<close>, not the string of the body.
\<close>

theorem validate_passes_body_through_counterexample:
  "is_success 200 \<and>
   fst (ProofGate_validate std_libs (stub (Response 200 (Some (JObj lax_items)))) demo_client
          ''0xA'' ''0xB'' ''0xa9059cbb'' ''0'' None None world0) = Inr lax_response \<and>
   dict_get lax_items ''safe'' = Some (JStr ''false'') \<and>
   JStr ''false'' \<noteq> JBool (safe lax_response)"
proof -
  have a: "fst (ProofGate_validate std_libs (stub (Response 200 (Some (JObj lax_items)))) demo_client
          ''0xA'' ''0xB'' ''0xa9059cbb'' ''0'' None None world0) = Inr lax_response"
    by (simp add: demo_validate lax_decodes)
  have b: "dict_get lax_items ''safe'' = Some (JStr ''false'')"
    by (simp add: lax_items_def dict_get_def)
  show ?thesis
    using a b by (simp add: is_success_def)
qed

text \<open>
  A body whose \<open>result\<close> and \<open>safe\<close> disagree comes back as it is: neither field is
  derived from the other.
\<close>

lemma inconsistent_body_passes_through:
  "fst (ProofGate_validate lib
          (stub (Response 200 (Some (JObj [(''validationId'', JStr ''val_5''), (''result'', JStr ''PASS''),
                                           (''reason'', JStr ''r''), (''evidenceUri'', JStr ''u''),
                                           (''safe'', JBool False), (''chainId'', JInt 1)]))))
          demo_client f t d v None None w) =
     Inr \<lparr> validation_id = ''val_5'', result = PASS, reason = ''r'', evidence_uri = ''u'',
           safe = False, checks = [], resp_chain_id = 1, authenticated = False, tier = ''free'',
           backend = ''local'', on_chain_recorded = False \<rparr>"
  by (simp add: demo_validate ValidateResponse_model_validate_def ValidateResponse_fields_def
        as_str_def as_bool_def as_int_def as_result_def as_checks_def by_alias_def dict_get_def
        as_bool_default_def as_str_default_def)

section \<open>The constructors\<close>

text \<open>
  C3 (as the code has it). Both constructors check the key first. With an empty key, or a
  key that does not start with \<open>pg_\<close>, they raise a \<open>ProofGateError\<close> (code
  \<open>MISSING_API_KEY\<close> for the empty key, \<open>INVALID_API_KEY\<close> otherwise) and leave the world
  as it was: no session has been opened and no call issued. With a non-empty key that
  starts with \<open>pg_\<close> they build the configuration and then the HTTP session: when building
  the session raises, the constructor raises that exception and no session has been
  opened; otherwise it returns the client, and the only effect is the session it opened.
\<close>

theorem init_key_check:
  "(key = [] \<or> \<not> startswith key ''pg_'' \<longrightarrow>
      (\<exists>e. ProofGate_init lib key kw w = (Inl (PGError e), w) \<and>
           AsyncProofGate_init lib key kw w = (Inl (PGError e), w) \<and>
           code e = (if key = [] then ''MISSING_API_KEY'' else ''INVALID_API_KEY''))) \<and>
   (key \<noteq> [] \<and> startswith key ''pg_'' \<and> new_session lib (init_session key kw) = None \<longrightarrow>
      ProofGate_init lib key kw w =
        (Inr \<lparr> config = init_config key kw, session = init_session key kw \<rparr>,
         w\<lparr> sessions_opened := sessions_opened w @ [init_session key kw] \<rparr>) \<and>
      AsyncProofGate_init lib key kw w =
        (Inr \<lparr> config = init_config key kw, session = init_session key kw \<rparr>,
         w\<lparr> sessions_opened := sessions_opened w @ [init_session key kw] \<rparr>)) \<and>
   (key \<noteq> [] \<and> startswith key ''pg_'' \<and> new_session lib (init_session key kw) = Some x \<longrightarrow>
      ProofGate_init lib key kw w = (Inl x, w) \<and>
      AsyncProofGate_init lib key kw w = (Inl x, w))"
  by (simp add: ProofGate_init_def AsyncProofGate_init_def raise_pg_def Let_def
        init_session_def init_config_def ProofGateConfig_new_def)

theorem init_key_check_witness:
  "(\<exists>e. ProofGate_init std_libs [] no_kwargs world0 = (Inl (PGError e), world0) \<and>
        AsyncProofGate_init std_libs [] no_kwargs world0 = (Inl (PGError e), world0) \<and>
        code e = ''MISSING_API_KEY'') \<and>
   (\<exists>e. ProofGate_init std_libs ''sk_live_1'' no_kwargs world0 = (Inl (PGError e), world0) \<and>
        AsyncProofGate_init std_libs ''sk_live_1'' no_kwargs world0 = (Inl (PGError e), world0) \<and>
        code e = ''INVALID_API_KEY'') \<and>
   ProofGate_init std_libs ''pg_k'' no_kwargs world0 =
     (Inr demo_client, world0\<lparr> sessions_opened := [session demo_client] \<rparr>) \<and>
   AsyncProofGate_init std_libs ''pg_k'' no_kwargs world0 =
     (Inr demo_client, world0\<lparr> sessions_opened := [session demo_client] \<rparr>) \<and>
   ProofGate_init std_libs (''pg_'' @ [CHR 0xE9]) no_kwargs world0 = (Inl UnicodeEncodeError, world0) \<and>
   AsyncProofGate_init std_libs (''pg_'' @ [CHR 0xE9]) no_kwargs world0 = (Inl UnicodeEncodeError, world0)"
proof -
  have a: "\<exists>e. ProofGate_init std_libs [] no_kwargs world0 = (Inl (PGError e), world0) \<and>
        AsyncProofGate_init std_libs [] no_kwargs world0 = (Inl (PGError e), world0) \<and>
        code e = ''MISSING_API_KEY''"
    using init_key_check[where lib = std_libs and key = "[]" and kw = no_kwargs and w = world0,
        THEN conjunct1]
    by simp
  have b: "\<exists>e. ProofGate_init std_libs ''sk_live_1'' no_kwargs world0 = (Inl (PGError e), world0) \<and>
        AsyncProofGate_init std_libs ''sk_live_1'' no_kwargs world0 = (Inl (PGError e), world0) \<and>
        code e = ''INVALID_API_KEY''"
    using init_key_check[where lib = std_libs and key = "''sk_live_1''" and kw = no_kwargs
        and w = world0, THEN conjunct1]
    by (simp add: startswith_def)
  have c: "ProofGate_init std_libs ''pg_k'' no_kwargs world0 =
             (Inr demo_client, world0\<lparr> sessions_opened := [session demo_client] \<rparr>) \<and>
           AsyncProofGate_init std_libs ''pg_k'' no_kwargs world0 =
             (Inr demo_client, world0\<lparr> sessions_opened := [session demo_client] \<rparr>)"
    using init_key_check[where lib = std_libs and key = "''pg_k''" and kw = no_kwargs
        and w = world0, THEN conjunct2, THEN conjunct1]
    by (simp add: startswith_def std_libs_def std_new_session_def is_ascii_def init_session_def
          init_config_def no_kwargs_def demo_client_def world0_def)
  have d: "ProofGate_init std_libs (''pg_'' @ [CHR 0xE9]) no_kwargs world0 = (Inl UnicodeEncodeError, world0) \<and>
           AsyncProofGate_init std_libs (''pg_'' @ [CHR 0xE9]) no_kwargs world0 = (Inl UnicodeEncodeError, world0)"
    using init_key_check[where lib = std_libs and key = "''pg_'' @ [CHR 0xE9]" and kw = no_kwargs
        and w = world0 and x = UnicodeEncodeError, THEN conjunct2, THEN conjunct2]
    by (simp add: startswith_def std_libs_def std_new_session_def is_ascii_def init_session_def)
  show ?thesis
    using a b c d by simp
qed

text \<open>
  The sentence as the specification has it fails on a key that passes the check and
  cannot be a header value: \<open>pg_\<close> followed by a character outside ASCII is not empty and
  starts with \<open>pg_\<close>, and the constructor raises \<open>UnicodeEncodeError\<close>.
\<close>

theorem init_key_check_counterexample:
  "''pg_'' @ [CHR 0xE9] \<noteq> [] \<and>
   startswith (''pg_'' @ [CHR 0xE9]) ''pg_'' \<and>
   fst (ProofGate_init std_libs (''pg_'' @ [CHR 0xE9]) no_kwargs world0) = Inl UnicodeEncodeError \<and>
   fst (AsyncProofGate_init std_libs (''pg_'' @ [CHR 0xE9]) no_kwargs world0) = Inl UnicodeEncodeError"
  by (simp add: ProofGate_init_def AsyncProofGate_init_def startswith_def Let_def no_kwargs_def
        std_libs_def std_new_session_def is_ascii_def)

text \<open>
  C10. A client built by either constructor has the \<open>chain_id\<close> the caller passed, and 56
  when the caller passed none. The default 8453 that \<open>ProofGateConfig\<close> declares for the
  field applies only when \<open>ProofGateConfig\<close> is built without a \<open>chain_id\<close>, which the
  constructors never do: a client has \<open>chain_id\<close> 8453 only when the caller passed 8453.
\<close>

theorem init_chain_id_default:
  "(fst (ProofGate_init lib key kw w) = Inr pg \<longrightarrow>
      chain_id (config pg) = (case kw_chain_id kw of None \<Rightarrow> 56 | Some c \<Rightarrow> c) \<and>
      (chain_id (config pg) = 8453) = (kw_chain_id kw = Some 8453)) \<and>
   (fst (AsyncProofGate_init lib key kw w) = Inr pg \<longrightarrow>
      chain_id (config pg) = (case kw_chain_id kw of None \<Rightarrow> 56 | Some c \<Rightarrow> c) \<and>
      (chain_id (config pg) = 8453) = (kw_chain_id kw = Some 8453)) \<and>
   chain_id (ProofGateConfig_new key burl None gid tmo) = 8453"
  by (auto simp add: ProofGate_init_def AsyncProofGate_init_def ProofGateConfig_new_def Let_def
      split: if_splits option.splits)

theorem init_chain_id_default_witness:
  "fst (ProofGate_init std_libs ''pg_k'' no_kwargs world0) = Inr demo_client \<and>
   fst (AsyncProofGate_init std_libs ''pg_k'' no_kwargs world0) = Inr demo_client \<and>
   kw_chain_id no_kwargs = None \<and>
   chain_id (config demo_client) = 56 \<and>
   chain_id (ProofGateConfig_new ''pg_k'' None None None None) = 8453"
  using init_chain_id_default[of std_libs "''pg_k''" no_kwargs world0 demo_client None None None] init_demo
  by (simp add: async_init_eq no_kwargs_def)

lemma validate_world:
  "snd (ProofGate_validate lib net self f t d v g c w) =
     w\<lparr> requests := requests w @
          [validate_call self f t d v (opt_str_json (or_str g (guardrail_id (config self))))
             (JInt (or_int c (chain_id (config self))))] \<rparr>"
proof -
  let ?js = "call_json (validate_call self f t d v (opt_str_json (or_str g (guardrail_id (config self))))
                          (JInt (or_int c (chain_id (config self)))))"
  obtain x w' where rq: "ProofGate_request net self ''POST'' ''/validate'' ?js w = (x, w')"
    by (cases "ProofGate_request net self ''POST'' ''/validate'' ?js w")
  then have "w' = w\<lparr> requests := requests w @ [the_call self ''POST'' ''/validate'' ?js] \<rparr>"
    using request_world[of net self "''POST''" "''/validate''" ?js w] by simp
  then show ?thesis
    using rq validate_call_shape[of self f t d v] by (cases x) (simp_all add: validate_unfold)
qed

lemma request_error_propagates:
  "fst (ProofGate_request net self ''POST'' ''/validate''
          (call_json (validate_call self f t d v (opt_str_json (or_str g (guardrail_id (config self))))
                        (JInt (or_int c (chain_id (config self)))))) w) = Inl e \<Longrightarrow>
   fst (ProofGate_validate lib net self f t d v g c w) = Inl e \<and>
   fst (ProofGate_validate_or_throw lib net self f t d v g c w) = Inl e"
  "fst (ProofGate_request net self ''GET'' (''/agents/check?wallet='' @ wallet) None w) = Inl e \<Longrightarrow>
   fst (ProofGate_check_agent mv net self wallet w) = Inl e"
  "fst (ProofGate_request net self ''GET'' (''/evidence/'' @ vid) None w) = Inl e \<Longrightarrow>
   fst (ProofGate_get_evidence mv' net self vid w) = Inl e"
  "fst (ProofGate_request net self ''GET'' (''/validate?wallet='' @ wallet) None w) = Inl e \<Longrightarrow>
   fst (ProofGate_get_usage mv'' net self wallet w) = Inl e"
  by (auto simp: validate_unfold ProofGate_validate_or_throw_def ProofGate_check_agent_def
        ProofGate_get_evidence_def ProofGate_get_usage_def split: prod.splits sum.splits)

section \<open>Errors of the exchange\<close>

text \<open>
  C4 (as the code has it). In \<open>_request\<close> of both clients, which every method goes
  through: a response outside 2xx whose body is a JSON object raises the \<open>ProofGateError\<close>
  with code \<open>API_ERROR\<close> and the status code, whose message is the value of \<open>error\<close> when
  that value is truthy, otherwise the value of \<open>message\<close> when that one is truthy, otherwise
  the text \<open>HTTP <status>\<close>; a timeout of the transport raises the one with code \<open>TIMEOUT\<close>
  and message \<open>Request timeout\<close>; any other request error of the transport raises the one
  with code \<open>NETWORK_ERROR\<close> and the text of the failure. Each method raises what
  \<open>_request\<close> raised.
\<close>

theorem request_error_mapping:
  "(net (the_call self m p js) = Response st (Some (JObj kvs)) \<and> \<not> is_success st \<longrightarrow>
      fst (ProofGate_request net self m p js w) =
        Inl (PGError \<lparr> message =
                          (if truthy (get_or_none kvs ''error'') then get_or_none kvs ''error''
                           else if truthy (get_or_none kvs ''message'') then get_or_none kvs ''message''
                           else JStr (''HTTP '' @ str_int st)),
                        code = ''API_ERROR'', status_code = Some st, validation_result = None \<rparr>)) \<and>
   (net (the_call self m p js) = TimeoutException x \<longrightarrow>
      fst (ProofGate_request net self m p js w) =
        Inl (PGError \<lparr> message = JStr ''Request timeout'', code = ''TIMEOUT'',
                        status_code = None, validation_result = None \<rparr>)) \<and>
   (net (the_call self m p js) = RequestError x \<longrightarrow>
      fst (ProofGate_request net self m p js w) =
        Inl (PGError \<lparr> message = JStr x, code = ''NETWORK_ERROR'',
                        status_code = None, validation_result = None \<rparr>)) \<and>
   AsyncProofGate_request net self m p js w = ProofGate_request net self m p js w \<and>
   (fst (ProofGate_request net self ''POST'' ''/validate''
          (call_json (validate_call self f t d v (opt_str_json (or_str g (guardrail_id (config self))))
                        (JInt (or_int c (chain_id (config self)))))) w) = Inl e \<longrightarrow>
      fst (ProofGate_validate lib net self f t d v g c w) = Inl e \<and>
      fst (ProofGate_validate_or_throw lib net self f t d v g c w) = Inl e \<and>
      fst (AsyncProofGate_validate lib net self f t d v g c w) = Inl e \<and>
      fst (AsyncProofGate_validate_or_throw lib net self f t d v g c w) = Inl e) \<and>
   (fst (ProofGate_request net self ''GET'' (''/agents/check?wallet='' @ wallet) None w) = Inl e \<longrightarrow>
      fst (ProofGate_check_agent mv net self wallet w) = Inl e \<and>
      fst (AsyncProofGate_check_agent mv net self wallet w) = Inl e) \<and>
   (fst (ProofGate_request net self ''GET'' (''/evidence/'' @ vid) None w) = Inl e \<longrightarrow>
      fst (ProofGate_get_evidence mv' net self vid w) = Inl e \<and>
      fst (AsyncProofGate_get_evidence mv' net self vid w) = Inl e) \<and>
   (fst (ProofGate_request net self ''GET'' (''/validate?wallet='' @ wallet) None w) = Inl e \<longrightarrow>
      fst (ProofGate_get_usage mv'' net self wallet w) = Inl e \<and>
      fst (AsyncProofGate_get_usage mv'' net self wallet w) = Inl e)"
proof -
  have api: "net (the_call self m p js) = Response st (Some (JObj kvs)) \<and> \<not> is_success st \<longrightarrow>
      fst (ProofGate_request net self m p js w) =
        Inl (PGError \<lparr> message =
                          (if truthy (get_or_none kvs ''error'') then get_or_none kvs ''error''
                           else if truthy (get_or_none kvs ''message'') then get_or_none kvs ''message''
                           else JStr (''HTTP '' @ str_int st)),
                        code = ''API_ERROR'', status_code = Some st, validation_result = None \<rparr>)"
    by (simp add: ProofGate_request_def the_call_def Let_def raise_pg_def py_or_def)
  have tmo: "net (the_call self m p js) = TimeoutException x \<longrightarrow>
      fst (ProofGate_request net self m p js w) =
        Inl (PGError \<lparr> message = JStr ''Request timeout'', code = ''TIMEOUT'',
                        status_code = None, validation_result = None \<rparr>)"
    by (simp add: ProofGate_request_def the_call_def Let_def raise_pg_def)
  have nw: "net (the_call self m p js) = RequestError x \<longrightarrow>
      fst (ProofGate_request net self m p js w) =
        Inl (PGError \<lparr> message = JStr x, code = ''NETWORK_ERROR'',
                        status_code = None, validation_result = None \<rparr>)"
    by (simp add: ProofGate_request_def the_call_def Let_def raise_pg_def)
  show ?thesis
    using api tmo nw request_error_propagates(1)[of net self f t d v g c w e lib]
      request_error_propagates(2)[of net self wallet w e mv]
      request_error_propagates(3)[of net self vid w e mv']
      request_error_propagates(4)[of net self wallet w e mv'']
    by (simp add: async_request_eq async_validate_eq async_validate_or_throw_eq
          async_check_agent_eq async_get_evidence_eq async_get_usage_eq)
qed

theorem request_error_mapping_witness:
  "fst (ProofGate_request (stub (Response 404 (Some (JObj [(''error'', JStr ''not found'')]))))
          demo_client ''GET'' ''/evidence/val_1'' None world0) =
     Inl (PGError \<lparr> message = JStr ''not found'', code = ''API_ERROR'',
                     status_code = Some 404, validation_result = None \<rparr>) \<and>
   fst (ProofGate_request (stub (Response 503 (Some (JObj [(''detail'', JStr ''down'')]))))
          demo_client ''GET'' ''/evidence/val_1'' None world0) =
     Inl (PGError \<lparr> message = JStr ''HTTP 503'', code = ''API_ERROR'',
                     status_code = Some 503, validation_result = None \<rparr>) \<and>
   fst (ProofGate_request (stub (TimeoutException ''timed out''))
          demo_client ''GET'' ''/evidence/val_1'' None world0) =
     Inl (PGError \<lparr> message = JStr ''Request timeout'', code = ''TIMEOUT'',
                     status_code = None, validation_result = None \<rparr>) \<and>
   fst (ProofGate_request (stub (RequestError ''connection refused''))
          demo_client ''GET'' ''/evidence/val_1'' None world0) =
     Inl (PGError \<lparr> message = JStr ''connection refused'', code = ''NETWORK_ERROR'',
                     status_code = None, validation_result = None \<rparr>) \<and>
   fst (ProofGate_get_evidence (\<lambda>j. Inr j) (stub (TimeoutException ''timed out''))
          demo_client ''val_1'' world0) =
     Inl (PGError \<lparr> message = JStr ''Request timeout'', code = ''TIMEOUT'',
                     status_code = None, validation_result = None \<rparr>)"
proof -
  let ?E = "PGError \<lparr> message = JStr ''Request timeout'', code = ''TIMEOUT'',
                        status_code = None, validation_result = None \<rparr>"
  note api = request_error_mapping[where net = "stub (Response 404 (Some (JObj [(''error'', JStr ''not found'')])))"
      and self = demo_client and m = "''GET''" and p = "''/evidence/val_1''" and js = None
      and st = 404 and kvs = "[(''error'', JStr ''not found'')]" and w = world0, THEN conjunct1]
  note fallback = request_error_mapping[where net = "stub (Response 503 (Some (JObj [(''detail'', JStr ''down'')])))"
      and self = demo_client and m = "''GET''" and p = "''/evidence/val_1''" and js = None
      and st = 503 and kvs = "[(''detail'', JStr ''down'')]" and w = world0, THEN conjunct1]
  note tmo = request_error_mapping[where net = "stub (TimeoutException ''timed out'')"
      and self = demo_client and m = "''GET''" and p = "''/evidence/val_1''" and js = None
      and x = "''timed out''" and w = world0, THEN conjunct2, THEN conjunct1]
  note ev = request_error_mapping[where net = "stub (TimeoutException ''timed out'')"
      and self = demo_client and w = world0 and vid = "''val_1''" and e = ?E and mv' = "\<lambda>j. Inr j",
      THEN conjunct2, THEN conjunct2, THEN conjunct2, THEN conjunct2, THEN conjunct2,
      THEN conjunct2, THEN conjunct1]
  note nw = request_error_mapping[where net = "stub (RequestError ''connection refused'')"
      and self = demo_client and m = "''GET''" and p = "''/evidence/val_1''" and js = None
      and x = "''connection refused''" and w = world0, THEN conjunct2, THEN conjunct2, THEN conjunct1]
  have a: "fst (ProofGate_request (stub (Response 404 (Some (JObj [(''error'', JStr ''not found'')]))))
          demo_client ''GET'' ''/evidence/val_1'' None world0) =
     Inl (PGError \<lparr> message = JStr ''not found'', code = ''API_ERROR'',
                     status_code = Some 404, validation_result = None \<rparr>)"
    using api by (simp add: stub_def is_success_def get_or_none_def dict_get_def)
  have b: "fst (ProofGate_request (stub (Response 503 (Some (JObj [(''detail'', JStr ''down'')]))))
          demo_client ''GET'' ''/evidence/val_1'' None world0) =
     Inl (PGError \<lparr> message = JStr ''HTTP 503'', code = ''API_ERROR'',
                     status_code = Some 503, validation_result = None \<rparr>)"
    using fallback
    by (simp add: stub_def is_success_def get_or_none_def dict_get_def str_int_def str_nat.simps
          digit_char_def)
  have c: "fst (ProofGate_request (stub (TimeoutException ''timed out''))
          demo_client ''GET'' ''/evidence/val_1'' None world0) = Inl ?E"
    using tmo by (simp add: stub_def)
  have d: "fst (ProofGate_request (stub (RequestError ''connection refused''))
          demo_client ''GET'' ''/evidence/val_1'' None world0) =
     Inl (PGError \<lparr> message = JStr ''connection refused'', code = ''NETWORK_ERROR'',
                     status_code = None, validation_result = None \<rparr>)"
    using nw by (simp add: stub_def)
  have e: "fst (ProofGate_get_evidence (\<lambda>j. Inr j) (stub (TimeoutException ''timed out''))
          demo_client ''val_1'' world0) = Inl ?E"
    using ev c by simp
  show ?thesis
    using a b c d e by simp
qed

text \<open>
  The sentence as the specification has it fails where a field is there and its value is
  not truthy: a body \<open>{"error": ""}\<close> with status 500 has an \<open>error\<close> field, and the error
  raised carries \<open>HTTP 500\<close>, not the field.
\<close>

theorem request_error_mapping_counterexample:
  "dict_get [(''error'', JStr [])] ''error'' = Some (JStr []) \<and>
   fst (ProofGate_request (stub (Response 500 (Some (JObj [(''error'', JStr [])]))))
          demo_client ''GET'' ''/evidence/val_1'' None world0) =
     Inl (PGError \<lparr> message = JStr ''HTTP 500'', code = ''API_ERROR'',
                     status_code = Some 500, validation_result = None \<rparr>) \<and>
   JStr ''HTTP 500'' \<noteq> JStr []"
  by (simp add: ProofGate_request_def stub_def is_success_def get_or_none_def dict_get_def
        py_or_def raise_pg_def Let_def str_int_def str_nat.simps digit_char_def)

text \<open>
  C5 (as the code has it). No method catches what decoding raises. When the exchange ends
  with a 2xx status and a body that \<open>ValidateResponse\<close> rejects, \<open>validate\<close> raises the
  validation library's \<open>ValidationError\<close>, which is not a \<open>ProofGateError\<close>; a body that is
  not JSON raises the \<open>JSONDecodeError\<close> of \<open>response.json()\<close>, not a \<open>ProofGateError\<close>
  either; and the read methods return or raise exactly what \<open>model_validate\<close> of their
  class does with the body.
\<close>

theorem undecodable_body_raises_foreign_error:
  "(net (validate_call self f t d v (opt_str_json (or_str g (guardrail_id (config self))))
           (JInt (or_int c (chain_id (config self))))) = Response st (Some body) \<and>
    is_success st \<and> ValidateResponse_model_validate lib body = Inl e \<longrightarrow>
      fst (ProofGate_validate lib net self f t d v g c w) = Inl ValidationError \<and>
      fst (AsyncProofGate_validate lib net self f t d v g c w) = Inl ValidationError \<and>
      fst (ProofGate_validate_or_throw lib net self f t d v g c w) = Inl ValidationError \<and>
      fst (AsyncProofGate_validate_or_throw lib net self f t d v g c w) = Inl ValidationError \<and>
      \<not> is_ProofGateError ValidationError) \<and>
   (net (the_call self m p js) = Response st None \<longrightarrow>
      fst (ProofGate_request net self m p js w) = Inl JSONDecodeError \<and>
      fst (AsyncProofGate_request net self m p js w) = Inl JSONDecodeError \<and>
      \<not> is_ProofGateError JSONDecodeError) \<and>
   (net (the_call self ''GET'' (''/agents/check?wallet='' @ wallet) None) = Response st (Some body) \<and>
    is_success st \<longrightarrow>
      fst (ProofGate_check_agent mv net self wallet w) = mv body \<and>
      fst (AsyncProofGate_check_agent mv net self wallet w) = mv body) \<and>
   (net (the_call self ''GET'' (''/evidence/'' @ vid) None) = Response st (Some body) \<and>
    is_success st \<longrightarrow>
      fst (ProofGate_get_evidence mv' net self vid w) = mv' body \<and>
      fst (AsyncProofGate_get_evidence mv' net self vid w) = mv' body) \<and>
   (net (the_call self ''GET'' (''/validate?wallet='' @ wallet) None) = Response st (Some body) \<and>
    is_success st \<longrightarrow>
      fst (ProofGate_get_usage mv'' net self wallet w) = mv'' body \<and>
      fst (AsyncProofGate_get_usage mv'' net self wallet w) = mv'' body)"
proof -
  have v: "net (validate_call self f t d v (opt_str_json (or_str g (guardrail_id (config self))))
           (JInt (or_int c (chain_id (config self))))) = Response st (Some body) \<and>
    is_success st \<and> ValidateResponse_model_validate lib body = Inl e \<longrightarrow>
      fst (ProofGate_validate lib net self f t d v g c w) = Inl ValidationError \<and>
      fst (ProofGate_validate_or_throw lib net self f t d v g c w) = Inl ValidationError"
  proof (intro impI, elim conjE)
    assume n: "net (validate_call self f t d v (opt_str_json (or_str g (guardrail_id (config self))))
           (JInt (or_int c (chain_id (config self))))) = Response st (Some body)"
      and s: "is_success st" and m: "ValidateResponse_model_validate lib body = Inl e"
    from m have "e = ValidationError"
      by (simp add: ValidateResponse_model_validate_def split: option.splits)
    with m validate_ok[of net self f t d v g c st body lib w] n s
    show "fst (ProofGate_validate lib net self f t d v g c w) = Inl ValidationError \<and>
      fst (ProofGate_validate_or_throw lib net self f t d v g c w) = Inl ValidationError"
      by (simp add: ProofGate_validate_or_throw_def)
  qed
  have j: "net (the_call self m p js) = Response st None \<longrightarrow>
      fst (ProofGate_request net self m p js w) = Inl JSONDecodeError"
    by (simp add: ProofGate_request_def the_call_def Let_def)
  have r: "\<And>path dec. net (the_call self ''GET'' path None) = Response st (Some body) \<and> is_success st \<longrightarrow>
      ProofGate_request net self ''GET'' path None w =
        (Inr body, w\<lparr> requests := requests w @ [the_call self ''GET'' path None] \<rparr>)"
    using request_ok by blast
  show ?thesis
    using v j r[of "''/agents/check?wallet='' @ wallet"] r[of "''/evidence/'' @ vid"]
      r[of "''/validate?wallet='' @ wallet"]
    by (simp add: async_request_eq async_validate_eq async_validate_or_throw_eq
          async_check_agent_eq async_get_evidence_eq async_get_usage_eq is_ProofGateError_def
          ProofGate_check_agent_def ProofGate_get_evidence_def ProofGate_get_usage_def)
qed

theorem undecodable_body_raises_foreign_error_witness:
  "fst (ProofGate_validate std_libs (stub (Response 200 (Some (JObj [(''safe'', JBool True)]))))
          demo_client ''0xA'' ''0xB'' ''0xa9059cbb'' ''0'' None None world0) = Inl ValidationError \<and>
   fst (ProofGate_validate_or_throw std_libs (stub (Response 200 (Some (JObj [(''safe'', JBool True)]))))
          demo_client ''0xA'' ''0xB'' ''0xa9059cbb'' ''0'' None None world0) = Inl ValidationError \<and>
   fst (ProofGate_request (stub (Response 200 None)) demo_client ''GET'' ''/evidence/val_1'' None world0) =
     Inl JSONDecodeError \<and>
   fst (ProofGate_get_evidence (ValidateResponse_model_validate std_libs) (stub (Response 200 (Some (JObj [(''safe'', JBool True)]))))
          demo_client ''val_1'' world0) = Inl ValidationError"
proof -
  let ?b = "JObj [(''safe'', JBool True)]"
  have dec: "ValidateResponse_model_validate std_libs ?b = Inl ValidationError"
    by (simp add: decode_defs)
  note t = undecodable_body_raises_foreign_error[where net = "stub (Response 200 (Some ?b))"
      and self = demo_client and st = 200 and body = ?b and e = ValidationError and w = world0
      and lib = std_libs]
  note t1 = t[where f = "''0xA''" and t = "''0xB''" and d = "''0xa9059cbb''" and v = "''0''"
        and g = None and c = None, THEN conjunct1]
  note t4 = t[where vid = "''val_1''" and mv' = "ValidateResponse_model_validate std_libs",
        THEN conjunct2, THEN conjunct2, THEN conjunct2, THEN conjunct1]
  have a: "fst (ProofGate_validate std_libs (stub (Response 200 (Some ?b)))
          demo_client ''0xA'' ''0xB'' ''0xa9059cbb'' ''0'' None None world0) = Inl ValidationError \<and>
        fst (ProofGate_validate_or_throw std_libs (stub (Response 200 (Some ?b)))
          demo_client ''0xA'' ''0xB'' ''0xa9059cbb'' ''0'' None None world0) = Inl ValidationError"
    using t1 dec
    by (simp add: stub_def is_success_def)
  have b: "fst (ProofGate_request (stub (Response 200 None)) demo_client ''GET'' ''/evidence/val_1'' None world0) =
     Inl JSONDecodeError"
    using undecodable_body_raises_foreign_error[where net = "stub (Response 200 None)"
      and self = demo_client and st = 200 and m = "''GET''" and p = "''/evidence/val_1''"
      and js = None and w = world0, THEN conjunct2, THEN conjunct1]
    by (simp add: stub_def)
  have c: "fst (ProofGate_get_evidence (ValidateResponse_model_validate std_libs) (stub (Response 200 (Some ?b)))
          demo_client ''val_1'' world0) = Inl ValidationError"
    using t4 dec
    by (simp add: stub_def is_success_def)
  show ?thesis
    using a b c by simp
qed

text \<open>
  The sentence as the specification has it fails on any 2xx body the class rejects: the
  empty object is answered with an exception outside the \<open>ProofGateError\<close> family.
\<close>

theorem undecodable_body_counterexample:
  "is_success 200 \<and>
   fst (ProofGate_validate std_libs (stub (Response 200 (Some (JObj [])))) demo_client
          ''0xA'' ''0xB'' ''0xa9059cbb'' ''0'' None None world0) = Inl ValidationError \<and>
   \<not> is_ProofGateError ValidationError"
  by (simp add: demo_validate decode_defs is_success_def is_ProofGateError_def)

section \<open>The request of validate\<close>

text \<open>
  C6. Every \<open>validate\<close> call issues one \<open>POST /validate\<close> whose body has the six keys
  \<open>from\<close>, \<open>to\<close>, \<open>data\<close>, \<open>value\<close>, \<open>guardrailId\<close>, \<open>chainId\<close> (lemma \<open>validate_world\<close>). The
  two last are computed with \<open>or\<close>, so a per-call value that is falsy does not override
  the configured default as the docstring says it does: on a client configured with
  guardrail \<open>gr_default\<close> and chain 56, the call with \<open>guardrail_id=""\<close> and \<open>chain_id=0\<close>
  sends \<open>gr_default\<close> and 56.
\<close>

theorem validate_falsy_override_sends_default:
  "requests (snd (ProofGate_validate std_libs (stub (Response 200 (Some pass_body))) guarded_client
                    ''0xA'' ''0xB'' ''0xa9059cbb'' ''0'' (Some []) (Some 0) world0)) =
     [validate_call guarded_client ''0xA'' ''0xB'' ''0xa9059cbb'' ''0'' (JStr ''gr_default'') (JInt 56)] \<and>
   requests (snd (AsyncProofGate_validate std_libs (stub (Response 200 (Some pass_body))) guarded_client
                    ''0xA'' ''0xB'' ''0xa9059cbb'' ''0'' (Some []) (Some 0) world0)) =
     [validate_call guarded_client ''0xA'' ''0xB'' ''0xa9059cbb'' ''0'' (JStr ''gr_default'') (JInt 56)]"
  by (simp add: async_validate_eq validate_world world0_def guarded_client_def demo_client_def
        or_str_def or_int_def opt_str_json_def)

section \<open>The two clients\<close>

text \<open>
  C7. The non-blocking client is the blocking one: the constructors, \<open>close\<close>, \<open>_request\<close>
  and the five methods of \<open>AsyncProofGate\<close> and \<open>ProofGate\<close> are the same functions of the
  configuration, the arguments, the transport and the world. So on the same inputs they
  issue the same calls (method, path, headers of the session, JSON body) and return the
  same object or raise the same error.
\<close>

theorem async_client_is_sync_client:
  "AsyncProofGate_init = ProofGate_init \<and>
   AsyncProofGate_close = ProofGate_close \<and>
   AsyncProofGate_request = ProofGate_request \<and>
   AsyncProofGate_validate = ProofGate_validate \<and>
   AsyncProofGate_validate_or_throw = ProofGate_validate_or_throw \<and>
   AsyncProofGate_check_agent = ProofGate_check_agent \<and>
   AsyncProofGate_get_evidence = ProofGate_get_evidence \<and>
   AsyncProofGate_get_usage = ProofGate_get_usage"
  by (simp add: async_init_eq async_close_eq async_request_eq async_validate_eq
        async_validate_or_throw_eq async_check_agent_eq async_get_evidence_eq async_get_usage_eq)

section \<open>The helper\<close>

text \<open>
  C9. \<open>is_transaction_safe\<close>: when the client is built and its \<open>validate\<close> call returns a
  response, the helper returns the \<open>safe\<close> field of that response, true or false, and
  closes the session; it raises only what the constructor or \<open>validate\<close> raised.
\<close>

theorem is_transaction_safe_returns_safe:
  "(ProofGate_init lib key no_kwargs w = (Inr pg, w1) \<and>
    ProofGate_validate lib net pg f t d v None None w1 = (Inr r, w2) \<longrightarrow>
      is_transaction_safe lib net key f t d v w = (Inr (safe r), ProofGate_close pg w2)) \<and>
   (ProofGate_init lib key no_kwargs w = (Inr pg, w1) \<and>
    ProofGate_validate lib net pg f t d v None None w1 = (Inl e, w2) \<longrightarrow>
      is_transaction_safe lib net key f t d v w = (Inl e, ProofGate_close pg w2)) \<and>
   (ProofGate_init lib key no_kwargs w = (Inl e, w1) \<longrightarrow>
      is_transaction_safe lib net key f t d v w = (Inl e, w1))"
  by (simp add: is_transaction_safe_def)

theorem is_transaction_safe_returns_safe_witness:
  "fst (is_transaction_safe std_libs (stub (Response 200 (Some fail_body))) ''pg_k''
          ''0xA'' ''0xB'' ''0xa9059cbb'' ''0'' world0) = Inr False \<and>
   fst (is_transaction_safe std_libs (stub (Response 200 (Some pass_body))) ''pg_k''
          ''0xA'' ''0xB'' ''0xa9059cbb'' ''0'' world0) = Inr True"
proof -
  let ?w1 = "world0\<lparr> sessions_opened := [session demo_client] \<rparr>"
  let ?w2 = "?w1\<lparr> requests := requests ?w1 @
               [validate_call demo_client ''0xA'' ''0xB'' ''0xa9059cbb'' ''0'' JNull (JInt 56)] \<rparr>"
  have f: "ProofGate_validate std_libs (stub (Response 200 (Some fail_body))) demo_client
             ''0xA'' ''0xB'' ''0xa9059cbb'' ''0'' None None ?w1 = (Inr fail_response, ?w2)"
    by (simp add: demo_validate fail_decodes)
  have p: "ProofGate_validate std_libs (stub (Response 200 (Some pass_body))) demo_client
             ''0xA'' ''0xB'' ''0xa9059cbb'' ''0'' None None ?w1 = (Inr pass_response, ?w2)"
    by (simp add: demo_validate pass_decodes)
  have a: "fst (is_transaction_safe std_libs (stub (Response 200 (Some fail_body))) ''pg_k''
          ''0xA'' ''0xB'' ''0xa9059cbb'' ''0'' world0) = Inr (safe fail_response)"
    using is_transaction_safe_returns_safe[where lib = std_libs and key = "''pg_k''" and w = world0 and pg = demo_client
        and ?w1.0 = ?w1 and net = "stub (Response 200 (Some fail_body))" and r = fail_response
        and ?w2.0 = ?w2 and f = "''0xA''" and t = "''0xB''" and d = "''0xa9059cbb''" and v = "''0''",
        THEN conjunct1] init_demo f
    by simp
  have b: "fst (is_transaction_safe std_libs (stub (Response 200 (Some pass_body))) ''pg_k''
          ''0xA'' ''0xB'' ''0xa9059cbb'' ''0'' world0) = Inr (safe pass_response)"
    using is_transaction_safe_returns_safe[where lib = std_libs and key = "''pg_k''" and w = world0 and pg = demo_client
        and ?w1.0 = ?w1 and net = "stub (Response 200 (Some pass_body))" and r = pass_response
        and ?w2.0 = ?w2 and f = "''0xA''" and t = "''0xB''" and d = "''0xa9059cbb''" and v = "''0''",
        THEN conjunct1] init_demo p
    by simp
  show ?thesis
    using a b by (simp add: fail_response_def pass_response_def)
qed

section \<open>The signer service\<close>

lemma signer_validate:
  "ProofGate_validate lib (stub (Response 200 (Some body))) signer_pg f t d v None None w =
     (ValidateResponse_model_validate lib body,
      w\<lparr> requests := requests w @ [validate_call signer_pg f t d v JNull (JInt 8453)] \<rparr>)"
  using validate_ok[of "stub (Response 200 (Some body))" signer_pg f t d v None None 200 body lib w]
  by (simp add: stub_def is_success_def signer_pg_def demo_client_def or_str_def or_int_def
        opt_str_json_def)

lemma signer_client_demo:
  "signer_client std_libs ''pg_k'' world0 = (Inr signer_pg, world0\<lparr> sessions_opened := [session signer_pg] \<rparr>)"
  by (simp add: signer_client_def ProofGate_init_def no_kwargs_def world0_def signer_pg_def
        demo_client_def startswith_def ProofGateConfig_new_def Let_def std_libs_def
        std_new_session_def is_ascii_def)

lemma deny_decodes: "ValidateResponse_model_validate std_libs deny_body = Inr deny_response"
  by (simp add: decode_defs deny_body_def deny_response_def)

lemma demo_sign_and_send: "sign_and_send demo_env demo_request = Inr (''0xsigned'', ''0xhash'')"
  by (simp add: sign_and_send_def build_tx_def then_sum_def demo_env_def demo_request_def)

lemma refusing_sign_and_send:
  "sign_and_send refusing_env demo_request = Inl (OtherError ''insufficient funds'')"
  by (simp add: sign_and_send_def build_tx_def then_sum_def refusing_env_def demo_env_def
        demo_request_def)

text \<open>
  The handler once \<open>validate\<close> has returned a response, for any environment. If \<open>safe\<close>
  is false it answers 400 with what \<open>jsonify\<close> makes of \<open>{success: False, error,
  validation: {result, reason, checks}}\<close>, and nothing is signed or broadcast. If \<open>safe\<close> is
  true it builds the transaction, signs it and sends it, and answers 200 with what
  \<open>jsonify\<close> makes of \<open>{success: True, txHash, validation: {...}}\<close>. If building, signing
  or sending raises, it answers 500 with what \<open>jsonify\<close> makes of \<open>{success: False, error:
  str(e)}\<close>, and nothing has been broadcast. Each answer supposes that \<open>jsonify\<close> returns on
  the value it is given; when it raises, the \<open>except\<close> clause takes over.
\<close>

lemma execute_outcomes:
  assumes "ProofGate_validate lib net pg (account_address env) (req_to rq) (req_data rq)
             (req_value rq) (req_guardrail rq) None w = (Inr vr, w1)"
  shows "(\<not> safe vr \<and> jsonify env (blocked_body vr) = Inr b \<longrightarrow>
            execute lib env net pg rq w = (Inr (b, 400), w1)) \<and>
         (safe vr \<and> build_tx env rq = Inr tx \<and> sign_transaction env tx = Inr raw \<and>
          send_raw_transaction env raw = Inr h \<and> jsonify env (sent_body h vr) = Inr b \<longrightarrow>
            execute lib env net pg rq w = (Inr (b, 200), w1\<lparr> broadcasts := broadcasts w1 @ [raw] \<rparr>)) \<and>
         (safe vr \<and> sign_and_send env rq = Inl e \<and>
          jsonify env (error_body (str_exn env e)) = Inr b \<longrightarrow>
            execute lib env net pg rq w = (Inr (b, 500), w1))"
  using assms
  by (simp add: execute_def sign_and_send_def then_sum_def handler_except_def)

lemma execute_when_jsonify_raises:
  assumes "ProofGate_validate lib net pg (account_address env) (req_to rq) (req_data rq)
             (req_value rq) (req_guardrail rq) None w = (Inr vr, w1)"
  shows "(\<not> safe vr \<and> jsonify env (blocked_body vr) = Inl e \<longrightarrow>
            execute lib env net pg rq w = (handler_except env e, w1)) \<and>
         (safe vr \<and> sign_and_send env rq = Inr (raw, h) \<and> jsonify env (sent_body h vr) = Inl e \<longrightarrow>
            execute lib env net pg rq w =
              (handler_except env e, w1\<lparr> broadcasts := broadcasts w1 @ [raw] \<rparr>))"
  using assms by (simp add: execute_def)

lemma flask_sign_and_send: "sign_and_send flask_env demo_request = Inr (''0xsigned'', ''0xhash'')"
  by (simp add: sign_and_send_def build_tx_def then_sum_def flask_env_def demo_env_def
        demo_request_def)

lemma flask_validate:
  "ProofGate_validate lib (stub (Response 200 (Some body))) signer_pg (account_address flask_env)
     (req_to demo_request) (req_data demo_request) (req_value demo_request)
     (req_guardrail demo_request) None world0 =
   (ValidateResponse_model_validate lib body,
    world0\<lparr> requests := [validate_call signer_pg ''0x0000000000000000000000000000000000000002'' ''0x0000000000000000000000000000000000000001'' ''0xa9059cbb'' ''0'' JNull (JInt 8453)] \<rparr>)"
  by (simp add: signer_validate flask_env_def demo_env_def demo_request_def world0_def)

lemma pass_checked_decodes:
  "ValidateResponse_model_validate std_libs pass_checked_body = Inr pass_checked_response"
  by (simp add: decode_defs pass_checked_body_def pass_checked_response_def)

lemma flask_error:
  "handler_except flask_env (OtherError t) = Inr (error_body t, 500)"
  by (simp add: handler_except_def flask_env_def default_jsonify_def error_body_def str_exn_def)

lemma execute_outcomes_example:
  "fst (execute std_libs demo_env (stub (Response 200 (Some deny_body))) signer_pg demo_request world0) =
     Inr (blocked_body deny_response, 400) \<and>
   broadcasts (snd (execute std_libs demo_env (stub (Response 200 (Some deny_body))) signer_pg demo_request world0)) = [] \<and>
   fst (execute std_libs demo_env (stub (Response 200 (Some pass_body))) signer_pg demo_request world0) =
     Inr (sent_body ''0xhash'' pass_response, 200) \<and>
   broadcasts (snd (execute std_libs demo_env (stub (Response 200 (Some pass_body))) signer_pg demo_request world0)) =
     [''0xsigned''] \<and>
   fst (execute std_libs refusing_env (stub (Response 200 (Some pass_body))) signer_pg demo_request world0) =
     Inr (error_body ''insufficient funds'', 500) \<and>
   broadcasts (snd (execute std_libs refusing_env (stub (Response 200 (Some pass_body))) signer_pg demo_request world0)) = []"
proof -
  let ?w1 = "world0\<lparr> requests := requests world0 @
               [validate_call signer_pg ''0x0000000000000000000000000000000000000002'' ''0x0000000000000000000000000000000000000001'' ''0xa9059cbb'' ''0'' JNull (JInt 8453)] \<rparr>"
  let ?tx = "\<lparr> tx_to = ''0x0000000000000000000000000000000000000001'', tx_data = ''0xa9059cbb'', tx_value = 0, tx_gas = 200000,
               tx_gasPrice = 5, tx_nonce = 7, tx_chainId = 8453 \<rparr>"
  have vf: "ProofGate_validate std_libs (stub (Response 200 (Some deny_body))) signer_pg
              (account_address demo_env) (req_to demo_request) (req_data demo_request)
              (req_value demo_request) (req_guardrail demo_request) None world0 = (Inr deny_response, ?w1)"
    by (simp add: signer_validate deny_decodes demo_env_def demo_request_def)
  have vp: "ProofGate_validate std_libs (stub (Response 200 (Some pass_body))) signer_pg
              (account_address demo_env) (req_to demo_request) (req_data demo_request)
              (req_value demo_request) (req_guardrail demo_request) None world0 = (Inr pass_response, ?w1)"
    by (simp add: signer_validate pass_decodes demo_env_def demo_request_def)
  have vr: "ProofGate_validate std_libs (stub (Response 200 (Some pass_body))) signer_pg
              (account_address refusing_env) (req_to demo_request) (req_data demo_request)
              (req_value demo_request) (req_guardrail demo_request) None world0 = (Inr pass_response, ?w1)"
    by (simp add: signer_validate pass_decodes refusing_env_def demo_env_def demo_request_def)
  have bt: "build_tx demo_env demo_request = Inr ?tx"
    by (simp add: build_tx_def then_sum_def demo_env_def demo_request_def)
  have a: "execute std_libs demo_env (stub (Response 200 (Some deny_body))) signer_pg demo_request world0 =
             (Inr (blocked_body deny_response, 400), ?w1)"
    using execute_outcomes[OF vf, where b = "blocked_body deny_response", THEN conjunct1]
    by (simp add: demo_env_def deny_response_def)
  have b: "execute std_libs demo_env (stub (Response 200 (Some pass_body))) signer_pg demo_request world0 =
             (Inr (sent_body ''0xhash'' pass_response, 200), ?w1\<lparr> broadcasts := broadcasts ?w1 @ [''0xsigned''] \<rparr>)"
    using execute_outcomes[OF vp, where b = "sent_body ''0xhash'' pass_response" and tx = ?tx
        and raw = "''0xsigned''" and h = "''0xhash''", THEN conjunct2, THEN conjunct1] bt
    by (simp add: demo_env_def pass_response_def)
  have c: "execute std_libs refusing_env (stub (Response 200 (Some pass_body))) signer_pg demo_request world0 =
             (Inr (error_body ''insufficient funds'', 500), ?w1)"
    using execute_outcomes[OF vr, where b = "error_body ''insufficient funds''"
        and e = "OtherError ''insufficient funds''", THEN conjunct2, THEN conjunct2]
      refusing_sign_and_send
    by (simp add: refusing_env_def demo_env_def pass_response_def str_exn_def)
  show ?thesis
    using a b c by (simp add: world0_def)
qed

text \<open>
  C8. \<open>POST /execute\<close> answers 400 with \<open>{success: False, error, validation: {result,
  reason, checks}}\<close> when the verdict has \<open>safe\<close> false, and 200 with \<open>{success: True,
  txHash, validation: {...}}\<close> after signing and broadcasting when it has \<open>safe\<close> true, as
  long as the verdict carries no checks. The handler passes \<open>validation.checks\<close> to
  \<open>jsonify\<close> as the model objects themselves, inside the \<open>try\<close>: with a verdict that
  carries a check, \<open>jsonify\<close> raises and the \<open>except\<close> clause answers 500, for a rejected
  transaction and, after the broadcast, for an accepted one.
\<close>

theorem execute_with_checks_answers_500:
  "fst (execute std_libs flask_env (stub (Response 200 (Some fail_body))) signer_pg demo_request world0) =
     Inr (error_body ''Object of type ValidationCheck is not JSON serializable'', 500) \<and>
   broadcasts (snd (execute std_libs flask_env (stub (Response 200 (Some fail_body))) signer_pg demo_request world0)) = [] \<and>
   fst (execute std_libs flask_env (stub (Response 200 (Some pass_checked_body))) signer_pg demo_request world0) =
     Inr (error_body ''Object of type ValidationCheck is not JSON serializable'', 500) \<and>
   broadcasts (snd (execute std_libs flask_env (stub (Response 200 (Some pass_checked_body))) signer_pg demo_request world0)) =
     [''0xsigned''] \<and>
   fst (execute std_libs flask_env (stub (Response 200 (Some deny_body))) signer_pg demo_request world0) =
     Inr (blocked_body deny_response, 400)"
proof -
  let ?E = "OtherError ''Object of type ValidationCheck is not JSON serializable''"
  have jf: "jsonify flask_env (blocked_body fail_response) = Inl ?E"
    by (simp add: flask_env_def default_jsonify_def blocked_body_def validation_dict_def
          fail_response_def)
  have jp: "jsonify flask_env (sent_body ''0xhash'' pass_checked_response) = Inl ?E"
    by (simp add: flask_env_def default_jsonify_def sent_body_def validation_dict_def
          pass_checked_response_def)
  have jd: "jsonify flask_env (blocked_body deny_response) = Inr (blocked_body deny_response)"
    by (simp add: flask_env_def default_jsonify_def blocked_body_def validation_dict_def
          deny_response_def)
  let ?w1 = "world0\<lparr> requests := [validate_call signer_pg ''0x0000000000000000000000000000000000000002'' ''0x0000000000000000000000000000000000000001'' ''0xa9059cbb'' ''0'' JNull (JInt 8453)] \<rparr>"
  have vf: "ProofGate_validate std_libs (stub (Response 200 (Some fail_body))) signer_pg (account_address flask_env)
              (req_to demo_request) (req_data demo_request) (req_value demo_request)
              (req_guardrail demo_request) None world0 = (Inr fail_response, ?w1)"
    by (simp add: flask_validate fail_decodes)
  have vp: "ProofGate_validate std_libs (stub (Response 200 (Some pass_checked_body))) signer_pg (account_address flask_env)
              (req_to demo_request) (req_data demo_request) (req_value demo_request)
              (req_guardrail demo_request) None world0 = (Inr pass_checked_response, ?w1)"
    by (simp add: flask_validate pass_checked_decodes)
  have vd: "ProofGate_validate std_libs (stub (Response 200 (Some deny_body))) signer_pg (account_address flask_env)
              (req_to demo_request) (req_data demo_request) (req_value demo_request)
              (req_guardrail demo_request) None world0 = (Inr deny_response, ?w1)"
    by (simp add: flask_validate deny_decodes)
  have s: "\<not> safe fail_response" "safe pass_checked_response" "\<not> safe deny_response"
    by (simp_all add: fail_response_def pass_checked_response_def deny_response_def)
  have a: "execute std_libs flask_env (stub (Response 200 (Some fail_body))) signer_pg demo_request world0 =
             (Inr (error_body ''Object of type ValidationCheck is not JSON serializable'', 500), ?w1)"
    using execute_when_jsonify_raises[OF vf, THEN conjunct1, of ?E] jf s(1) by (simp add: flask_error)
  have b: "execute std_libs flask_env (stub (Response 200 (Some pass_checked_body))) signer_pg demo_request world0 =
             (Inr (error_body ''Object of type ValidationCheck is not JSON serializable'', 500),
              ?w1\<lparr> broadcasts := broadcasts ?w1 @ [''0xsigned''] \<rparr>)"
    using execute_when_jsonify_raises[OF vp, THEN conjunct2, of "''0xsigned''" "''0xhash''" ?E]
      jp s(2) flask_sign_and_send
    by (simp add: flask_error)
  have c: "execute std_libs flask_env (stub (Response 200 (Some deny_body))) signer_pg demo_request world0 =
             (Inr (blocked_body deny_response, 400), ?w1)"
    using execute_outcomes[OF vd, THEN conjunct1, of "blocked_body deny_response"] jd s(3) by simp
  show ?thesis
    using a b c by (simp add: world0_def)
qed

end
